theory Spec2Isabelle
  imports Complex_Main "HOL-Library.Word"
begin

unbundle bit_operations_syntax

section \<open>Machine types\<close>

text \<open>
  The firmware runs on a 32-bit little-endian ARM core: \<open>uint8_t\<close>, \<open>uint16_t\<close> and
  \<open>uint32_t\<close>/\<open>unsigned long\<close> are words of 8, 16 and 32 bits; \<open>int16_t\<close>,
  \<open>int32_t\<close> and \<open>long\<close> are words of the same widths read through \<open>sint\<close> where the
  code compares them as signed values.
\<close>

type_synonym u8 = "8 word"
type_synonym u16 = "16 word"
type_synonym u32 = "32 word"
type_synonym i16 = "16 word"
type_synonym i32 = "32 word"

section \<open>Pin levels, hardware events and faults\<close>

text \<open>Arduino's pin levels, as the \<open>bool\<close> arrays of functions.cpp store them.\<close>

definition LOW :: bool where "LOW = False"
definition HIGH :: bool where "HIGH = True"

text \<open>
  What the firmware does to the outside world, in the order it happens. In the main
  firmware \<open>turn_on_illumination\<close> and \<open>turn_off_illumination\<close> select the LED matrix
  or a laser pin by \<open>illumination_source\<close> (a laser is switched on only when the
  interlock input allows it); the event records the call and the source it ran with. The
  TTL-only firmware's pin and SPI operations are recorded one by one.
\<close>

datatype hw_event =
    IlluminationOn int
  | IlluminationOff int
  | DelayMicroseconds u32
  | PinModeOutput int
  | DigitalWrite int bool
  | SPI_begin
  | SPI_beginTransaction
  | SPI_transfer u8
  | SPI_transfer16 u16
  | SPI_endTransaction

text \<open>
  C gives no meaning to an access past the end of an array. The model stops with a fault
  where the code would index \<open>rx_buffer\<close> at or beyond \<open>RX_BUFFER_SIZE\<close>, copy more
  than \<open>PACKET_MAX_PAYLOAD\<close> bytes into the local \<open>crc_data[PACKET_MAX_PAYLOAD + 2]\<close>,
  or index the legacy \<open>buffer_rx\<close> outside its 512 bytes.
\<close>

datatype fault = RxBufferOverrun | CrcDataOverrun | BufferRxOverrun

section \<open>Legacy fixed-length protocol (controller_ttl_only)\<close>

subsection \<open>Constants of constants.h\<close>

definition CMD_LENGTH :: int where "CMD_LENGTH = 8"
definition MSG_LENGTH :: int where "MSG_LENGTH = 24"

definition TURN_ON_ILLUMINATION :: nat where "TURN_ON_ILLUMINATION = 10"
definition TURN_OFF_ILLUMINATION :: nat where "TURN_OFF_ILLUMINATION = 11"
definition SET_ILLUMINATION :: nat where "SET_ILLUMINATION = 12"
definition ANALOG_WRITE_ONBOARD_DAC :: nat where "ANALOG_WRITE_ONBOARD_DAC = 15"
definition SET_DAC80508_REFDIV_GAIN :: nat where "SET_DAC80508_REFDIV_GAIN = 16"
definition SET_ILLUMINATION_INTENSITY_FACTOR :: nat where "SET_ILLUMINATION_INTENSITY_FACTOR = 17"
definition INITIALIZE :: nat where "INITIALIZE = 254"
definition RESET :: nat where "RESET = 255"

definition COMPLETED_WITHOUT_ERRORS :: u8 where "COMPLETED_WITHOUT_ERRORS = 0"
definition CMD_CHECKSUM_ERROR :: u8 where "CMD_CHECKSUM_ERROR = 2"

definition ILLUMINATION_SOURCE_405NM :: int where "ILLUMINATION_SOURCE_405NM = 11"
definition ILLUMINATION_SOURCE_488NM :: int where "ILLUMINATION_SOURCE_488NM = 12"
definition ILLUMINATION_SOURCE_638NM :: int where "ILLUMINATION_SOURCE_638NM = 13"
definition ILLUMINATION_SOURCE_561NM :: int where "ILLUMINATION_SOURCE_561NM = 14"
definition ILLUMINATION_SOURCE_730NM :: int where "ILLUMINATION_SOURCE_730NM = 15"

definition LASER_405nm :: int where "LASER_405nm = 1"
definition LASER_488nm :: int where "LASER_488nm = 2"
definition LASER_561nm :: int where "LASER_561nm = 3"
definition LASER_638nm :: int where "LASER_638nm = 4"
definition LASER_730nm :: int where "LASER_730nm = 5"

definition DAC8050x_CS_pin :: int where "DAC8050x_CS_pin = 33"
definition DAC8050x_DAC_ADDR :: u8 where "DAC8050x_DAC_ADDR = 0x08"
definition DAC8050x_GAIN_ADDR :: u8 where "DAC8050x_GAIN_ADDR = 0x04"
definition DAC8050x_CONFIG_ADDR :: u8 where "DAC8050x_CONFIG_ADDR = 0x03"

definition interval_send_pos_update :: u32 where "interval_send_pos_update = 10000"

subsection \<open>CRC-8 (utils/crc8.cpp)\<close>

text \<open>The inner loop, eight shifts of \<open>val\<close>; then one step per byte of the buffer.\<close>

fun crc8_shift :: "nat \<Rightarrow> u8 \<Rightarrow> u8" where
  "crc8_shift 0 val = val"
| "crc8_shift (Suc n) val =
     crc8_shift n (if val AND 0x80 \<noteq> 0 then push_bit 1 val XOR 0x07 else push_bit 1 val)"

definition crc8ccitt :: "u8 list \<Rightarrow> nat \<Rightarrow> u8" where
  "crc8ccitt data n = foldl (\<lambda>val b. crc8_shift 8 (val XOR b)) 0 (take n data)"

subsection \<open>Single-precision arithmetic\<close>

text \<open>
  \<open>illumination_intensity_factor\<close> is a \<open>float\<close>. Its value is kept as the rational
  number the binary32 pattern stands for, and each operation rounds its exact result to
  the nearest binary32 value, ties to even (24 significant bits, smallest step
  \<open>2^-149\<close>). The values that occur lie between 0 and 65535, far from overflow, which
  is not modelled.
\<close>

function bit_length :: "int \<Rightarrow> nat" where
  "bit_length n = (if n \<le> 0 then 0 else Suc (bit_length (n div 2)))"
  by pat_completeness auto
termination
  by (relation "measure nat") auto

definition round_half_even :: "rat \<Rightarrow> int" where
  "round_half_even m =
     (let f = \<lfloor>m\<rfloor>; r = m - of_int f in
      if r < 1 / 2 then f
      else if 1 / 2 < r then f + 1
      else if even f then f else f + 1)"

definition f32_round :: "rat \<Rightarrow> rat" where
  "f32_round x =
     (if x \<le> 0 then 0
      else
        let scaled = x * 2 ^ 149;
            drop_bits = bit_length \<lfloor>scaled\<rfloor> - 24
        in of_int (round_half_even (scaled / 2 ^ drop_bits)) * 2 ^ drop_bits / 2 ^ 149)"

subsection \<open>Globals (globals.cpp)\<close>

text \<open>
  \<open>cmd_map\<close> is the array of 256 function pointers; an entry is \<open>None\<close> for the null
  pointer and otherwise names the callback whose address \<open>init_callbacks\<close> stored.
\<close>

datatype CommandCallback =
    Callback_turn_on_illumination
  | Callback_turn_off_illumination
  | Callback_set_illumination
  | Callback_set_illumination_intensity_factor
  | Callback_set_dac_gain
  | Callback_analog_write_dac
  | Callback_initialize
  | Callback_reset

text \<open>
  The globals of the TTL-only firmware. \<open>us_since_last_pos_update\<close> holds what the
  \<open>elapsedMicros\<close> object reads when the code looks at it; \<open>hw_events\<close> lists the pin
  and SPI operations so far and \<open>SerialUSB_sent\<close> the messages handed to
  \<open>SerialUSB.write\<close>. The main firmware and the response structure below have
  variables and fields called \<open>cmd_id\<close>, \<open>illumination_source\<close> and
  \<open>illumination_is_on\<close> as well; where both are in scope the ones of this record are
  written \<open>ttl_only.cmd_id\<close>, \<open>ttl_only.illumination_source\<close> and
  \<open>ttl_only.illumination_is_on\<close>.
\<close>

record ttl_only =
  buffer_rx :: "u8 list"
  buffer_tx :: "u8 list"
  buffer_rx_ptr :: int
  cmd_id :: u8
  checksum_error :: bool
  us_since_last_pos_update :: u32
  illumination_source :: int
  illumination_intensity :: u16
  illumination_intensity_factor :: rat
  illumination_is_on :: bool
  cmd_map :: "CommandCallback option list"
  hw_events :: "hw_event list"
  SerialUSB_sent :: "u8 list list"

text \<open>Recording pin and SPI operations, in order.\<close>

definition hw :: "hw_event list \<Rightarrow> ttl_only \<Rightarrow> ttl_only" where
  "hw events s = s\<lparr>hw_events := hw_events s @ events\<rparr>"

subsection \<open>Illumination (illumination.cpp)\<close>

definition set_dac_gain :: "u8 \<Rightarrow> u8 \<Rightarrow> ttl_only \<Rightarrow> ttl_only" where
  "set_dac_gain div' gains s =
     (let value = push_bit 8 (ucast div') + (ucast gains :: u16) in
      hw [SPI_beginTransaction,
          DigitalWrite DAC8050x_CS_pin LOW,
          SPI_transfer DAC8050x_GAIN_ADDR,
          SPI_transfer16 value,
          DigitalWrite DAC8050x_CS_pin HIGH,
          SPI_endTransaction] s)"

definition init_dac :: "ttl_only \<Rightarrow> ttl_only" where
  "init_dac s =
     set_dac_gain 0x00 0x80
       (hw [PinModeOutput DAC8050x_CS_pin,
            DigitalWrite DAC8050x_CS_pin HIGH,
            SPI_begin,
            DelayMicroseconds 1000,
            SPI_beginTransaction,
            DigitalWrite DAC8050x_CS_pin LOW,
            SPI_transfer DAC8050x_CONFIG_ADDR,
            SPI_transfer16 0,
            DigitalWrite DAC8050x_CS_pin HIGH,
            SPI_endTransaction] s)"

text \<open>\<open>SPI.transfer(DAC8050x_DAC_ADDR + channel)\<close> sends the low eight bits of the sum.\<close>

definition set_dac_output :: "int \<Rightarrow> u16 \<Rightarrow> ttl_only \<Rightarrow> ttl_only" where
  "set_dac_output channel value s =
     hw [SPI_beginTransaction,
         DigitalWrite DAC8050x_CS_pin LOW,
         SPI_transfer (DAC8050x_DAC_ADDR + word_of_int channel),
         SPI_transfer16 value,
         DigitalWrite DAC8050x_CS_pin HIGH,
         SPI_endTransaction] s"

definition turn_off_all_lasers :: "ttl_only \<Rightarrow> ttl_only" where
  "turn_off_all_lasers s =
     hw [DigitalWrite LASER_405nm LOW,
         DigitalWrite LASER_488nm LOW,
         DigitalWrite LASER_561nm LOW,
         DigitalWrite LASER_638nm LOW,
         DigitalWrite LASER_730nm LOW] s"

text \<open>
  The main firmware has functions of the same names; the TTL-only ones carry the suffix
  \<open>_ttl\<close>.
\<close>

definition turn_on_illumination_ttl :: "ttl_only \<Rightarrow> ttl_only" where
  "turn_on_illumination_ttl s =
     (let s1 = s\<lparr>illumination_is_on := True\<rparr>; source = illumination_source s1 in
      if source = ILLUMINATION_SOURCE_405NM then hw [DigitalWrite LASER_405nm HIGH] s1
      else if source = ILLUMINATION_SOURCE_488NM then hw [DigitalWrite LASER_488nm HIGH] s1
      else if source = ILLUMINATION_SOURCE_561NM then hw [DigitalWrite LASER_561nm HIGH] s1
      else if source = ILLUMINATION_SOURCE_638NM then hw [DigitalWrite LASER_638nm HIGH] s1
      else if source = ILLUMINATION_SOURCE_730NM then hw [DigitalWrite LASER_730nm HIGH] s1
      else s1)"

definition turn_off_illumination_ttl :: "ttl_only \<Rightarrow> ttl_only" where
  "turn_off_illumination_ttl s =
     (let source = illumination_source s;
          s1 = (if source = ILLUMINATION_SOURCE_405NM then hw [DigitalWrite LASER_405nm LOW] s
                else if source = ILLUMINATION_SOURCE_488NM then hw [DigitalWrite LASER_488nm LOW] s
                else if source = ILLUMINATION_SOURCE_561NM then hw [DigitalWrite LASER_561nm LOW] s
                else if source = ILLUMINATION_SOURCE_638NM then hw [DigitalWrite LASER_638nm LOW] s
                else if source = ILLUMINATION_SOURCE_730NM then hw [DigitalWrite LASER_730nm LOW] s
                else s)
      in s1\<lparr>illumination_is_on := False\<rparr>)"

text \<open>
  \<open>illumination_intensity = intensity * illumination_intensity_factor\<close>: the product is
  formed in \<open>float\<close> and converted to \<open>uint16_t\<close> by truncation.
\<close>

definition set_illumination :: "int \<Rightarrow> u16 \<Rightarrow> ttl_only \<Rightarrow> ttl_only" where
  "set_illumination source intensity s =
     (let s1 = s\<lparr>illumination_source := source,
                 illumination_intensity :=
                   word_of_int \<lfloor>f32_round (of_nat (unat intensity) * illumination_intensity_factor s)\<rfloor>\<rparr>;
          s2 = (if source = ILLUMINATION_SOURCE_405NM
                  then set_dac_output 0 (illumination_intensity s1) s1
                else if source = ILLUMINATION_SOURCE_488NM
                  then set_dac_output 1 (illumination_intensity s1) s1
                else if source = ILLUMINATION_SOURCE_561NM
                  then set_dac_output 2 (illumination_intensity s1) s1
                else if source = ILLUMINATION_SOURCE_638NM
                  then set_dac_output 3 (illumination_intensity s1) s1
                else if source = ILLUMINATION_SOURCE_730NM
                  then set_dac_output 4 (illumination_intensity s1) s1
                else s1)
      in if illumination_is_on s2 then turn_on_illumination_ttl s2 else s2)"

subsection \<open>Command handlers (commands.cpp)\<close>

definition callback_default :: "ttl_only \<Rightarrow> ttl_only" where
  "callback_default s = s"

definition callback_turn_on_illumination :: "ttl_only \<Rightarrow> ttl_only" where
  "callback_turn_on_illumination s = turn_on_illumination_ttl s"

definition callback_turn_off_illumination :: "ttl_only \<Rightarrow> ttl_only" where
  "callback_turn_off_illumination s = turn_off_illumination_ttl s"

definition callback_set_illumination :: "ttl_only \<Rightarrow> ttl_only" where
  "callback_set_illumination s =
     (let source = uint (buffer_rx s ! 2);
          intensity = push_bit 8 (ucast (buffer_rx s ! 3)) + (ucast (buffer_rx s ! 4) :: u16)
      in set_illumination source intensity s)"

definition callback_set_illumination_intensity_factor :: "ttl_only \<Rightarrow> ttl_only" where
  "callback_set_illumination_intensity_factor s =
     (let factor = buffer_rx s ! 2;
          factor = (if factor > 100 then 100 else factor)
      in s\<lparr>illumination_intensity_factor := f32_round (of_nat (unat factor) / 100)\<rparr>)"

definition callback_set_dac_gain :: "ttl_only \<Rightarrow> ttl_only" where
  "callback_set_dac_gain s = set_dac_gain (buffer_rx s ! 2) (buffer_rx s ! 3) s"

definition callback_analog_write_dac :: "ttl_only \<Rightarrow> ttl_only" where
  "callback_analog_write_dac s =
     (let channel = uint (buffer_rx s ! 2);
          value = push_bit 8 (ucast (buffer_rx s ! 3)) + (ucast (buffer_rx s ! 4) :: u16)
      in set_dac_output channel value s)"

definition callback_initialize :: "ttl_only \<Rightarrow> ttl_only" where
  "callback_initialize s =
     init_dac (turn_off_all_lasers
       (s\<lparr>illumination_source := 0, illumination_intensity := 0, illumination_is_on := False\<rparr>))"

definition callback_reset :: "ttl_only \<Rightarrow> ttl_only" where
  "callback_reset s =
     (turn_off_all_lasers (s\<lparr>cmd_id := 0\<rparr>))
       \<lparr>illumination_source := 0, illumination_intensity := 0, illumination_is_on := False\<rparr>"

text \<open>A call through a non-null entry of \<open>cmd_map\<close>.\<close>

fun call :: "CommandCallback \<Rightarrow> ttl_only \<Rightarrow> ttl_only" where
  "call Callback_turn_on_illumination = callback_turn_on_illumination"
| "call Callback_turn_off_illumination = callback_turn_off_illumination"
| "call Callback_set_illumination = callback_set_illumination"
| "call Callback_set_illumination_intensity_factor = callback_set_illumination_intensity_factor"
| "call Callback_set_dac_gain = callback_set_dac_gain"
| "call Callback_analog_write_dac = callback_analog_write_dac"
| "call Callback_initialize = callback_initialize"
| "call Callback_reset = callback_reset"

definition init_callbacks :: "ttl_only \<Rightarrow> ttl_only" where
  "init_callbacks s =
     s\<lparr>cmd_map := (cmd_map s)
          [TURN_ON_ILLUMINATION := Some Callback_turn_on_illumination,
           TURN_OFF_ILLUMINATION := Some Callback_turn_off_illumination,
           SET_ILLUMINATION := Some Callback_set_illumination,
           SET_ILLUMINATION_INTENSITY_FACTOR := Some Callback_set_illumination_intensity_factor,
           SET_DAC80508_REFDIV_GAIN := Some Callback_set_dac_gain,
           ANALOG_WRITE_ONBOARD_DAC := Some Callback_analog_write_dac,
           INITIALIZE := Some Callback_initialize,
           RESET := Some Callback_reset]\<rparr>"

subsection \<open>Serial communication (serial_communication.cpp)\<close>

text \<open>
  \<open>process_serial_message\<close>, over the bytes \<open>SerialUSB\<close> holds during the call. Each
  byte is stored at \<open>buffer_rx[buffer_rx_ptr]\<close>; the model stops with a fault where the
  index is outside the 512 bytes of \<open>buffer_rx\<close>. On a checksum mismatch the code
  reads the remaining bytes away and returns.
\<close>

fun process_serial_message :: "ttl_only \<Rightarrow> u8 list \<Rightarrow> fault + ttl_only" where
  "process_serial_message s [] = Inr s"
| "process_serial_message s (byte # rest) =
     (if buffer_rx_ptr s < 0 \<or> 512 \<le> buffer_rx_ptr s then Inl BufferRxOverrun
      else
        let s1 = s\<lparr>buffer_rx := (buffer_rx s)[nat (buffer_rx_ptr s) := byte],
                    buffer_rx_ptr := buffer_rx_ptr s + 1\<rparr>
        in
        if buffer_rx_ptr s1 = CMD_LENGTH then
          let s2 = s1\<lparr>buffer_rx_ptr := 0, cmd_id := buffer_rx s1 ! 0\<rparr>;
              checksum = crc8ccitt (buffer_rx s2) (nat (CMD_LENGTH - 1))
          in
          if checksum \<noteq> buffer_rx s2 ! nat (CMD_LENGTH - 1) then
            Inr (s2\<lparr>checksum_error := True\<rparr>)
          else
            let s3 = s2\<lparr>checksum_error := False\<rparr> in
            process_serial_message
              (case cmd_map s3 ! unat (buffer_rx s3 ! 1) of
                 None \<Rightarrow> callback_default s3
               | Some p_callback \<Rightarrow> call p_callback s3)
              rest
        else process_serial_message s1 rest)"

text \<open>
  \<open>send_position_update\<close>. All 24 bytes of \<open>buffer_tx\<close> are assigned: the command
  id, the status, 21 zero bytes and the CRC-8 of the first 23.
\<close>

definition send_position_update :: "ttl_only \<Rightarrow> ttl_only" where
  "send_position_update s =
     (if us_since_last_pos_update s > interval_send_pos_update then
        let tx = [cmd_id s,
                  if checksum_error s then CMD_CHECKSUM_ERROR else COMPLETED_WITHOUT_ERRORS] @
                 replicate 21 0;
            tx_checksum = crc8ccitt tx (nat (MSG_LENGTH - 1));
            message = tx @ [tx_checksum]
        in s\<lparr>us_since_last_pos_update := 0,
             buffer_tx := message,
             SerialUSB_sent := SerialUSB_sent s @ [message]\<rparr>
      else s)"

subsection \<open>Power-on state of the TTL-only firmware\<close>

text \<open>
  The initialisers of globals.cpp, with the receive and transmit buffers zeroed, followed
  by \<open>init_callbacks\<close>.
\<close>

definition ttl_power_on :: ttl_only where
  "ttl_power_on =
     init_callbacks
       \<lparr>buffer_rx = replicate 512 0,
        buffer_tx = replicate 24 0,
        buffer_rx_ptr = 0,
        cmd_id = 0,
        checksum_error = False,
        us_since_last_pos_update = 0,
        illumination_source = 0,
        illumination_intensity = 0,
        illumination_intensity_factor = 1,
        illumination_is_on = False,
        cmd_map = replicate 256 None,
        hw_events = [],
        SerialUSB_sent = []\<rparr>"

section \<open>Protocol v2: constants of protocol_v2.h\<close>

definition PACKET_HEADER_0 :: u8 where "PACKET_HEADER_0 = 0xAA"
definition PACKET_HEADER_1 :: u8 where "PACKET_HEADER_1 = 0xBB"
definition PACKET_MAX_PAYLOAD :: u16 where "PACKET_MAX_PAYLOAD = 506"
definition PACKET_OVERHEAD :: u16 where "PACKET_OVERHEAD = 6"
definition RX_BUFFER_SIZE :: u16 where "RX_BUFFER_SIZE = 512"

text \<open>
  \<open>RESPONSE_SIZE\<close> is \<open>sizeof(ResponsePacket)\<close>: 78 bytes, the struct being packed.
\<close>

definition RESPONSE_SIZE :: u16 where "RESPONSE_SIZE = 78"

text \<open>The three command types that \<open>process_command\<close> routes (enum CommandType).\<close>

definition CMD_GET_STATE :: u8 where "CMD_GET_STATE = 0xF0"
definition CMD_GET_VERSION :: u8 where "CMD_GET_VERSION = 0xF2"
definition CMD_RESET :: u8 where "CMD_RESET = 0xFF"

text \<open>enum ResponseStatus, enum ErrorCode, enum AxisState, enum SystemMode: all \<open>uint8_t\<close>.\<close>

definition STATUS_OK :: u8 where "STATUS_OK = 0x00"
definition STATUS_ACCEPTED :: u8 where "STATUS_ACCEPTED = 0x01"
definition STATUS_REJECTED :: u8 where "STATUS_REJECTED = 0x02"
definition STATUS_ERROR :: u8 where "STATUS_ERROR = 0x03"

definition ERR_NONE :: u8 where "ERR_NONE = 0x00"
definition ERR_INVALID_CMD :: u8 where "ERR_INVALID_CMD = 0x01"
definition ERR_PACKET_TOO_SHORT :: u8 where "ERR_PACKET_TOO_SHORT = 0x07"

definition AXIS_IDLE :: u8 where "AXIS_IDLE = 0"
definition AXIS_MOVING :: u8 where "AXIS_MOVING = 1"
definition AXIS_HOMING :: u8 where "AXIS_HOMING = 2"
definition AXIS_ERROR :: u8 where "AXIS_ERROR = 3"

definition MODE_NORMAL :: u8 where "MODE_NORMAL = 0"

section \<open>CRC-16\<close>

text \<open>
  Modelled from the spec: \<open>crc16_ccitt\<close> is declared in utils/crc16.h and protocol_v2.h,
  its body is not among the sources. The header and the specification fix the algorithm:
  CRC-16/CCITT-FALSE, polynomial 0x1021, initial value 0xFFFF, each byte entering at the
  high end, no reflection and no final xor. The second argument is the number of bytes
  read from the buffer.
\<close>

fun crc16_shift :: "nat \<Rightarrow> u16 \<Rightarrow> u16" where
  "crc16_shift 0 crc = crc"
| "crc16_shift (Suc n) crc =
     crc16_shift n (if crc AND 0x8000 \<noteq> 0 then push_bit 1 crc XOR 0x1021 else push_bit 1 crc)"

definition crc16_byte :: "u16 \<Rightarrow> u8 \<Rightarrow> u16" where
  "crc16_byte crc b = crc16_shift 8 (crc XOR push_bit 8 (ucast b))"

definition crc16_ccitt :: "u8 list \<Rightarrow> u16 \<Rightarrow> u16" where
  "crc16_ccitt data len = foldl crc16_byte 0xFFFF (take (unat len) data)"

section \<open>Response structure (protocol_v2.h)\<close>

text \<open>
  Both structs have fields called \<open>error_code\<close> and \<open>reserved\<close>; the ones of
  \<open>AxisStatus\<close> carry the prefix \<open>axis_\<close> here.
\<close>

record AxisStatus =
  position_usteps :: i32
  target_usteps :: i32
  state :: u8
  axis_error_code :: u8
  homed :: u8
  axis_reserved :: u8

record ResponsePacket =
  cmd_id :: u8
  status :: u8
  error_code :: u8
  system_mode :: u8
  axes :: "AxisStatus list"
  dac_values :: "u16 list"
  illum_on_mask :: u8
  led_pattern :: u8
  joystick_delta_x :: i16
  joystick_delta_y :: i16
  buttons :: u8
  reserved :: "u8 list"

section \<open>Firmware state\<close>

datatype RxState =
    RX_WAIT_HEADER_0
  | RX_WAIT_HEADER_1
  | RX_WAIT_LENGTH_0
  | RX_WAIT_LENGTH_1
  | RX_WAIT_PAYLOAD
  | RX_WAIT_CRC_0
  | RX_WAIT_CRC_1

text \<open>
  The globals the protocol engine and the strobe timer work on, with the names of the
  sources: the statics of protocol_v2.cpp, the motion, homing and joystick globals of
  globals.cpp, the strobe arrays of functions.cpp (six channels each). Beyond the
  variables of the program:
  \<^item> \<open>X_use_encoder\<close>, \<open>Y_use_encoder\<close>, \<open>Z_use_encoder\<close> are configuration
    constants of a header that is not among the sources; they are fields, so every
    result holds for each configuration;
  \<^item> \<open>tmc4361A_currentPosition_x\<close> .. \<open>_w\<close> are what the motion controller's position
    readback returns for the four axes;
  \<^item> \<open>micros_readings k\<close> is what the call number \<open>k\<close> of \<open>micros()\<close> returns,
    and \<open>micros_calls\<close> counts the calls made so far;
  \<^item> \<open>hw_trace\<close> lists the illumination and delay events so far;
  \<^item> \<open>SerialUSB_written\<close> lists the packets handed to \<open>SerialUSB.write\<close> so far.
  The field \<open>joystick_delta_x\<close> of the response shares its name with the global; the
  globals are \<open>joystick_delta_x_g\<close> and \<open>joystick_delta_y_g\<close>.
\<close>

record firmware =
  rx_state :: RxState
  rx_buffer :: "u8 list"
  rx_payload_length :: u16
  rx_payload_received :: u16
  rx_crc_received :: u16
  illumination_channel_states :: u8
  current_led_pattern :: u8
  mcu_cmd_execution_in_progress :: bool
  X_commanded_movement_in_progress :: bool
  Y_commanded_movement_in_progress :: bool
  Z_commanded_movement_in_progress :: bool
  W_commanded_movement_in_progress :: bool
  is_homing_X :: bool
  is_homing_Y :: bool
  is_homing_Z :: bool
  is_homing_W :: bool
  is_homing_XY :: bool
  home_X_found :: bool
  home_Y_found :: bool
  home_Z_found :: bool
  home_W_found :: bool
  is_preparing_for_homing_X :: bool
  is_preparing_for_homing_Y :: bool
  is_preparing_for_homing_Z :: bool
  is_preparing_for_homing_W :: bool
  trigger_mode :: u8
  X_use_encoder :: bool
  Y_use_encoder :: bool
  Z_use_encoder :: bool
  X_pos :: i32
  Y_pos :: i32
  Z_pos :: i32
  tmc4361A_currentPosition_x :: i32
  tmc4361A_currentPosition_y :: i32
  tmc4361A_currentPosition_z :: i32
  tmc4361A_currentPosition_w :: i32
  X_commanded_target_position :: i32
  Y_commanded_target_position :: i32
  Z_commanded_target_position :: i32
  W_commanded_target_position :: i32
  joystick_delta_x_g :: i16
  joystick_delta_y_g :: i16
  joystick_button_pressed :: bool
  trigger_output_level :: "bool list"
  control_strobe :: "bool list"
  strobe_output_level :: "bool list"
  strobe_on :: "bool list"
  strobe_delay :: "u32 list"
  illumination_on_time :: "i32 list"
  timestamp_trigger_rising_edge :: "i32 list"
  illumination_source :: int
  illumination_is_on :: bool
  micros_readings :: "nat \<Rightarrow> u32"
  micros_calls :: nat
  hw_trace :: "hw_event list"
  SerialUSB_written :: "u8 list list"

section \<open>Response building (protocol_v2.cpp)\<close>

text \<open>\<open>memset(&response, 0, sizeof(ResponsePacket))\<close>.\<close>

definition zero_AxisStatus :: AxisStatus where
  "zero_AxisStatus =
     \<lparr>position_usteps = 0, target_usteps = 0, state = 0, axis_error_code = 0, homed = 0,
      axis_reserved = 0\<rparr>"

definition zero_ResponsePacket :: ResponsePacket where
  "zero_ResponsePacket =
     \<lparr>cmd_id = 0, status = 0, error_code = 0, system_mode = 0,
      axes = replicate 4 zero_AxisStatus, dac_values = replicate 8 0,
      illum_on_mask = 0, led_pattern = 0, joystick_delta_x = 0, joystick_delta_y = 0,
      buttons = 0, reserved = replicate 3 0\<rparr>"

text \<open>
  The four axis blocks of \<open>protocol_v2_build_response\<close>; each takes the zeroed entry
  and assigns position, target, state and homed.
\<close>

definition protocol_v2_build_response :: "firmware \<Rightarrow> u8 \<Rightarrow> u8 \<Rightarrow> u8 \<Rightarrow> ResponsePacket" where
  "protocol_v2_build_response s cid st err =
     zero_ResponsePacket
       \<lparr>cmd_id := cid,
        status := st,
        error_code := err,
        system_mode := MODE_NORMAL,
        axes :=
          [zero_AxisStatus
             \<lparr>position_usteps := (if X_use_encoder s then X_pos s else tmc4361A_currentPosition_x s),
              target_usteps := X_commanded_target_position s,
              state := (if is_homing_X s \<or> is_preparing_for_homing_X s then AXIS_HOMING
                        else if X_commanded_movement_in_progress s then AXIS_MOVING
                        else AXIS_IDLE),
              homed := (if home_X_found s then 1 else 0)\<rparr>,
           zero_AxisStatus
             \<lparr>position_usteps := (if Y_use_encoder s then Y_pos s else tmc4361A_currentPosition_y s),
              target_usteps := Y_commanded_target_position s,
              state := (if is_homing_Y s \<or> is_preparing_for_homing_Y s then AXIS_HOMING
                        else if Y_commanded_movement_in_progress s then AXIS_MOVING
                        else AXIS_IDLE),
              homed := (if home_Y_found s then 1 else 0)\<rparr>,
           zero_AxisStatus
             \<lparr>position_usteps := (if Z_use_encoder s then Z_pos s else tmc4361A_currentPosition_z s),
              target_usteps := Z_commanded_target_position s,
              state := (if is_homing_Z s \<or> is_preparing_for_homing_Z s then AXIS_HOMING
                        else if Z_commanded_movement_in_progress s then AXIS_MOVING
                        else AXIS_IDLE),
              homed := (if home_Z_found s then 1 else 0)\<rparr>,
           zero_AxisStatus
             \<lparr>position_usteps := tmc4361A_currentPosition_w s,
              target_usteps := W_commanded_target_position s,
              state := (if is_homing_W s \<or> is_preparing_for_homing_W s then AXIS_HOMING
                        else if W_commanded_movement_in_progress s then AXIS_MOVING
                        else AXIS_IDLE),
              homed := (if home_W_found s then 1 else 0)\<rparr>],
        illum_on_mask := illumination_channel_states s,
        led_pattern := current_led_pattern s,
        joystick_delta_x := joystick_delta_x_g s,
        joystick_delta_y := joystick_delta_y_g s,
        buttons := (if joystick_button_pressed s then 0x01 else 0x00)\<rparr>"

text \<open>
  \<open>memcpy(&packet[4], &response, RESPONSE_SIZE)\<close>: the struct is packed
  (\<open>#pragma pack(push, 1)\<close>) and the core is little-endian, so the 78 bytes are the
  fields in order, low byte first.
\<close>

definition le16 :: "u16 \<Rightarrow> u8 list" where
  "le16 w = [ucast w, ucast (drop_bit 8 w)]"

definition le32 :: "u32 \<Rightarrow> u8 list" where
  "le32 w = [ucast w, ucast (drop_bit 8 w), ucast (drop_bit 16 w), ucast (drop_bit 24 w)]"

definition bytes_of_AxisStatus :: "AxisStatus \<Rightarrow> u8 list" where
  "bytes_of_AxisStatus a =
     le32 (position_usteps a) @ le32 (target_usteps a) @
     [state a, axis_error_code a, homed a, axis_reserved a]"

definition bytes_of_ResponsePacket :: "ResponsePacket \<Rightarrow> u8 list" where
  "bytes_of_ResponsePacket r =
     [cmd_id r, status r, error_code r, system_mode r] @
     concat (map bytes_of_AxisStatus (axes r)) @
     concat (map le16 (dac_values r)) @
     [illum_on_mask r, led_pattern r] @
     le16 (joystick_delta_x r) @ le16 (joystick_delta_y r) @
     [buttons r] @ reserved r"

text \<open>
  \<open>protocol_v2_send_response\<close>: header, length, payload, then the CRC of
  \<open>packet[2 .. 2 + payload_length + 2)\<close>, low byte first; the packet goes to
  \<open>SerialUSB.write\<close>.
\<close>

definition response_packet_bytes :: "ResponsePacket \<Rightarrow> u8 list" where
  "response_packet_bytes response =
     (let payload_length = RESPONSE_SIZE;
          packet = [PACKET_HEADER_0, PACKET_HEADER_1,
                    ucast (payload_length AND 0xFF), ucast (drop_bit 8 payload_length AND 0xFF)] @
                   bytes_of_ResponsePacket response;
          crc = crc16_ccitt (drop 2 packet) (payload_length + 2)
      in packet @ [ucast (crc AND 0xFF), ucast (drop_bit 8 crc AND 0xFF)])"

definition protocol_v2_send_response :: "ResponsePacket \<Rightarrow> firmware \<Rightarrow> firmware" where
  "protocol_v2_send_response response s =
     s\<lparr>SerialUSB_written := SerialUSB_written s @ [response_packet_bytes response]\<rparr>"

section \<open>Command handlers and dispatch (protocol_v2.cpp)\<close>

definition handle_cmd_get_state :: "u8 \<Rightarrow> firmware \<Rightarrow> firmware" where
  "handle_cmd_get_state cid s =
     protocol_v2_send_response (protocol_v2_build_response s cid STATUS_OK ERR_NONE) s"

definition handle_cmd_reset :: "u8 \<Rightarrow> firmware \<Rightarrow> firmware" where
  "handle_cmd_reset cid s =
     (let s1 = s\<lparr>mcu_cmd_execution_in_progress := False,
                 X_commanded_movement_in_progress := False,
                 Y_commanded_movement_in_progress := False,
                 Z_commanded_movement_in_progress := False,
                 W_commanded_movement_in_progress := False,
                 is_homing_X := False,
                 is_homing_Y := False,
                 is_homing_Z := False,
                 is_homing_W := False,
                 is_homing_XY := False,
                 home_X_found := False,
                 home_Y_found := False,
                 home_Z_found := False,
                 home_W_found := False,
                 is_preparing_for_homing_X := False,
                 is_preparing_for_homing_Y := False,
                 is_preparing_for_homing_Z := False,
                 is_preparing_for_homing_W := False,
                 trigger_mode := 0,
                 illumination_channel_states := 0,
                 current_led_pattern := 0\<rparr>
      in protocol_v2_send_response (protocol_v2_build_response s1 cid STATUS_OK ERR_NONE) s1)"

definition handle_cmd_get_version :: "u8 \<Rightarrow> firmware \<Rightarrow> firmware" where
  "handle_cmd_get_version cid s =
     protocol_v2_send_response (protocol_v2_build_response s cid STATUS_OK ERR_NONE) s"

definition handle_unknown_command :: "u8 \<Rightarrow> u8 \<Rightarrow> firmware \<Rightarrow> firmware" where
  "handle_unknown_command cid cmd_type s =
     protocol_v2_send_response (protocol_v2_build_response s cid STATUS_REJECTED ERR_INVALID_CMD) s"

text \<open>
  \<open>process_command(payload, length)\<close>: \<open>payload\<close> is the buffer the pointer refers to
  (the receiver passes the whole \<open>rx_buffer\<close>), \<open>len\<close> the number of valid bytes.
  \<open>payload[0]\<close> and \<open>payload[1]\<close> are read only when \<open>len \<ge> 2\<close>.
\<close>

definition process_command :: "u8 list \<Rightarrow> u16 \<Rightarrow> firmware \<Rightarrow> firmware" where
  "process_command payload len s =
     (if len < 2 then
        protocol_v2_send_response
          (protocol_v2_build_response s 0 STATUS_REJECTED ERR_PACKET_TOO_SHORT) s
      else
        let cid = payload ! 0; cmd_type = payload ! 1 in
        if cmd_type = CMD_GET_STATE then handle_cmd_get_state cid s
        else if cmd_type = CMD_RESET then handle_cmd_reset cid s
        else if cmd_type = CMD_GET_VERSION then handle_cmd_get_version cid s
        else handle_unknown_command cid cmd_type s)"

section \<open>Packet reception (protocol_v2.cpp)\<close>

definition protocol_v2_init :: "firmware \<Rightarrow> firmware" where
  "protocol_v2_init s =
     s\<lparr>rx_state := RX_WAIT_HEADER_0,
       rx_payload_length := 0,
       rx_payload_received := 0,
       rx_crc_received := 0,
       illumination_channel_states := 0,
       current_led_pattern := 0\<rparr>"

text \<open>The body of the \<open>while\<close> loop for one byte read from \<open>SerialUSB\<close>.\<close>

definition rx_byte :: "firmware \<Rightarrow> u8 \<Rightarrow> fault + firmware" where
  "rx_byte s byte =
     (case rx_state s of
        RX_WAIT_HEADER_0 \<Rightarrow>
          Inr (if byte = PACKET_HEADER_0 then s\<lparr>rx_state := RX_WAIT_HEADER_1\<rparr> else s)
      | RX_WAIT_HEADER_1 \<Rightarrow>
          Inr (if byte = PACKET_HEADER_1 then s\<lparr>rx_state := RX_WAIT_LENGTH_0\<rparr>
               else if byte = PACKET_HEADER_0 then s\<lparr>rx_state := RX_WAIT_HEADER_1\<rparr>
               else s\<lparr>rx_state := RX_WAIT_HEADER_0\<rparr>)
      | RX_WAIT_LENGTH_0 \<Rightarrow>
          Inr (s\<lparr>rx_payload_length := ucast byte, rx_state := RX_WAIT_LENGTH_1\<rparr>)
      | RX_WAIT_LENGTH_1 \<Rightarrow>
          (let s1 = s\<lparr>rx_payload_length := rx_payload_length s OR push_bit 8 (ucast byte)\<rparr> in
           Inr (if rx_payload_length s1 = 0 \<or> rx_payload_length s1 > PACKET_MAX_PAYLOAD
                then s1\<lparr>rx_state := RX_WAIT_HEADER_0\<rparr>
                else s1\<lparr>rx_payload_received := 0, rx_state := RX_WAIT_PAYLOAD\<rparr>))
      | RX_WAIT_PAYLOAD \<Rightarrow>
          (if unat RX_BUFFER_SIZE \<le> unat (rx_payload_received s) then Inl RxBufferOverrun
           else
             let s1 = s\<lparr>rx_buffer := (rx_buffer s)[unat (rx_payload_received s) := byte],
                         rx_payload_received := rx_payload_received s + 1\<rparr> in
             Inr (if rx_payload_received s1 \<ge> rx_payload_length s1
                  then s1\<lparr>rx_state := RX_WAIT_CRC_0\<rparr>
                  else s1))
      | RX_WAIT_CRC_0 \<Rightarrow>
          Inr (s\<lparr>rx_crc_received := ucast byte, rx_state := RX_WAIT_CRC_1\<rparr>)
      | RX_WAIT_CRC_1 \<Rightarrow>
          (let s1 = s\<lparr>rx_crc_received := rx_crc_received s OR push_bit 8 (ucast byte)\<rparr> in
           if PACKET_MAX_PAYLOAD < rx_payload_length s1 then Inl CrcDataOverrun
           else
             let crc_data = [ucast (rx_payload_length s1 AND 0xFF),
                             ucast (drop_bit 8 (rx_payload_length s1) AND 0xFF)] @
                            take (unat (rx_payload_length s1)) (rx_buffer s1);
                 calculated_crc = crc16_ccitt crc_data (rx_payload_length s1 + 2);
                 s2 = (if calculated_crc = rx_crc_received s1
                       then process_command (rx_buffer s1) (rx_payload_length s1) s1
                       else s1)
             in Inr (s2\<lparr>rx_state := RX_WAIT_HEADER_0\<rparr>)))"

text \<open>
  \<open>protocol_v2_process\<close>: the loop \<open>while (SerialUSB.available())\<close>, over the bytes the
  serial port holds during the call, in order.
\<close>

fun protocol_v2_process :: "firmware \<Rightarrow> u8 list \<Rightarrow> fault + firmware" where
  "protocol_v2_process s [] = Inr s"
| "protocol_v2_process s (byte # rest) =
     (case rx_byte s byte of
        Inl f \<Rightarrow> Inl f
      | Inr s' \<Rightarrow> protocol_v2_process s' rest)"

text \<open>
  Successive calls of \<open>protocol_v2_process\<close> from the main loop, one for each chunk of
  bytes as it arrives.
\<close>

fun protocol_v2_process_chunks :: "firmware \<Rightarrow> u8 list list \<Rightarrow> fault + firmware" where
  "protocol_v2_process_chunks s [] = Inr s"
| "protocol_v2_process_chunks s (chunk # chunks) =
     (case protocol_v2_process s chunk of
        Inl f \<Rightarrow> Inl f
      | Inr s' \<Rightarrow> protocol_v2_process_chunks s' chunks)"

section \<open>Strobe timer (functions.cpp)\<close>

text \<open>
  \<open>turn_on_illumination\<close> sets \<open>illumination_is_on\<close> and then drives the hardware
  selected by \<open>illumination_source\<close>; \<open>turn_off_illumination\<close> drives it and then
  clears the flag. The hardware writes are the events of \<open>hw_trace\<close>.
\<close>

definition turn_on_illumination :: "firmware \<Rightarrow> firmware" where
  "turn_on_illumination s =
     s\<lparr>illumination_is_on := True,
       hw_trace := hw_trace s @ [IlluminationOn (illumination_source s)]\<rparr>"

definition turn_off_illumination :: "firmware \<Rightarrow> firmware" where
  "turn_off_illumination s =
     s\<lparr>hw_trace := hw_trace s @ [IlluminationOff (illumination_source s)],
       illumination_is_on := False\<rparr>"

text \<open>
  Time is what \<open>micros()\<close> returns, a 32-bit counter of microseconds that runs while the
  handler does: every call may return another value. \<open>micros s\<close> is the value the next
  call returns and \<open>after_micros s\<close> the state once the call is made. Nothing is
  assumed about how much time passes between two calls, whether in the busy-wait, in the
  switching of the illumination or elsewhere.
\<close>

definition micros :: "firmware \<Rightarrow> u32" where
  "micros s = micros_readings s (micros_calls s)"

definition after_micros :: "firmware \<Rightarrow> firmware" where
  "after_micros s = s\<lparr>micros_calls := Suc (micros_calls s)\<rparr>"

text \<open>\<open>delayMicroseconds(usec)\<close>, with its argument converted to \<open>uint32_t\<close>.\<close>

definition delayMicroseconds :: "u32 \<Rightarrow> firmware \<Rightarrow> firmware" where
  "delayMicroseconds usec s = s\<lparr>hw_trace := hw_trace s @ [DelayMicroseconds usec]\<rparr>"

text \<open>
  The body of the \<open>for\<close> loop of \<open>ISR_strobeTimer\<close> for one \<open>camera_channel\<close>.
  \<open>micros() - timestamp_trigger_rising_edge[c]\<close> and
  \<open>strobe_delay[c] + illumination_on_time[c]\<close> mix \<open>unsigned long\<close> and \<open>long\<close>:
  C computes both in \<open>unsigned long\<close>, modulo \<open>2^32\<close>, and compares unsigned.
  \<open>illumination_on_time[c] <= 30000\<close> compares \<open>long\<close> values, signed. Each test
  of the elapsed time calls \<open>micros()\<close> before it looks at the level: once for a short
  pulse, twice for a long one, the second time after the illumination may have been
  switched on.
\<close>

definition strobe_channel :: "nat \<Rightarrow> firmware \<Rightarrow> firmware" where
  "strobe_channel c s =
     (if control_strobe s ! c then
        if illumination_on_time s ! c \<le>s 30000 then
          let now = micros s;
              s0 = after_micros s
          in
            if now - timestamp_trigger_rising_edge s0 ! c \<ge> strobe_delay s0 ! c
               \<and> strobe_output_level s0 ! c = LOW
            then
              let s1 = turn_on_illumination s0;
                  s2 = delayMicroseconds (illumination_on_time s1 ! c) s1;
                  s3 = turn_off_illumination s2
              in s3\<lparr>control_strobe := (control_strobe s3)[c := False]\<rparr>
            else s0
        else
          let now = micros s;
              s0 = after_micros s;
              s1 = (if now - timestamp_trigger_rising_edge s0 ! c \<ge> strobe_delay s0 ! c
                       \<and> strobe_output_level s0 ! c = LOW
                    then (turn_on_illumination s0)
                           \<lparr>strobe_output_level := (strobe_output_level s0)[c := HIGH]\<rparr>
                    else s0);
              now' = micros s1;
              s2 = after_micros s1
          in
            if now' - timestamp_trigger_rising_edge s2 ! c
                 \<ge> strobe_delay s2 ! c + illumination_on_time s2 ! c
               \<and> strobe_output_level s2 ! c = HIGH
            then (turn_off_illumination s2)
                   \<lparr>strobe_output_level := (strobe_output_level s2)[c := LOW],
                    control_strobe := (control_strobe s2)[c := False]\<rparr>
            else s2
      else s)"

text \<open>\<open>for (int camera_channel = 0; camera_channel < 6; camera_channel++)\<close>.\<close>

definition ISR_strobeTimer :: "firmware \<Rightarrow> firmware" where
  "ISR_strobeTimer s = foldl (\<lambda>s' camera_channel. strobe_channel camera_channel s') s [0..<6]"

section \<open>Power-on state\<close>

text \<open>
  The initial values the sources give the globals (the initialisers of protocol_v2.cpp,
  globals.cpp and functions.cpp). The three encoder flags, \<open>trigger_mode\<close>, the
  position readbacks and the clock are not fixed by the sources; this state takes them as
  false and zero. It serves as the concrete input of the examples below.
\<close>

definition power_on :: firmware where
  "power_on =
     \<lparr>rx_state = RX_WAIT_HEADER_0,
      rx_buffer = replicate 512 0,
      rx_payload_length = 0,
      rx_payload_received = 0,
      rx_crc_received = 0,
      illumination_channel_states = 0,
      current_led_pattern = 0,
      mcu_cmd_execution_in_progress = False,
      X_commanded_movement_in_progress = False,
      Y_commanded_movement_in_progress = False,
      Z_commanded_movement_in_progress = False,
      W_commanded_movement_in_progress = False,
      is_homing_X = False,
      is_homing_Y = False,
      is_homing_Z = False,
      is_homing_W = False,
      is_homing_XY = False,
      home_X_found = False,
      home_Y_found = False,
      home_Z_found = False,
      home_W_found = False,
      is_preparing_for_homing_X = False,
      is_preparing_for_homing_Y = False,
      is_preparing_for_homing_Z = False,
      is_preparing_for_homing_W = False,
      trigger_mode = 0,
      X_use_encoder = False,
      Y_use_encoder = False,
      Z_use_encoder = False,
      X_pos = 0,
      Y_pos = 0,
      Z_pos = 0,
      tmc4361A_currentPosition_x = 0,
      tmc4361A_currentPosition_y = 0,
      tmc4361A_currentPosition_z = 0,
      tmc4361A_currentPosition_w = 0,
      X_commanded_target_position = 0,
      Y_commanded_target_position = 0,
      Z_commanded_target_position = 0,
      W_commanded_target_position = 0,
      joystick_delta_x_g = 0,
      joystick_delta_y_g = 0,
      joystick_button_pressed = False,
      trigger_output_level = [HIGH, HIGH, HIGH, HIGH, HIGH, HIGH],
      control_strobe = [False, False, False, False, False, False],
      strobe_output_level = [LOW, LOW, LOW, LOW, LOW, LOW],
      strobe_on = [False, False, False, False, False, False],
      strobe_delay = [0, 0, 0, 0, 0, 0],
      illumination_on_time = [0, 0, 0, 0, 0, 0],
      timestamp_trigger_rising_edge = [0, 0, 0, 0, 0, 0],
      illumination_source = 0,
      illumination_is_on = False,
      micros_readings = (\<lambda>k. 0),
      micros_calls = 0,
      hw_trace = [],
      SerialUSB_written = []\<rparr>"

section \<open>Receiver invariant and example states\<close>

text \<open>
  The bound the receiver keeps on its counters: while payload bytes are awaited, fewer
  have been stored than the length announces, and the length is at most
  \<open>PACKET_MAX_PAYLOAD\<close>.
\<close>

definition rx_in_bounds :: "firmware \<Rightarrow> bool" where
  "rx_in_bounds s \<longleftrightarrow>
     (case rx_state s of
        RX_WAIT_PAYLOAD \<Rightarrow>
          rx_payload_received s < rx_payload_length s \<and> rx_payload_length s \<le> PACKET_MAX_PAYLOAD
      | RX_WAIT_CRC_0 \<Rightarrow> rx_payload_length s \<le> PACKET_MAX_PAYLOAD
      | RX_WAIT_CRC_1 \<Rightarrow> rx_payload_length s \<le> PACKET_MAX_PAYLOAD
      | _ \<Rightarrow> True)"

text \<open>
  A state with axes homing and moving, a home found and illumination on, for the
  examples of the snapshot and of the reset.
\<close>

definition busy_example :: firmware where
  "busy_example =
     power_on\<lparr>is_homing_X := True, Y_commanded_movement_in_progress := True,
              home_Z_found := True, is_preparing_for_homing_W := True,
              illumination_channel_states := 5, current_led_pattern := 3\<rparr>"



section \<open>Chunk-boundary independence of the receiver\<close>

lemma protocol_v2_process_append:
  "protocol_v2_process s (xs @ ys) =
     (case protocol_v2_process s xs of
        Inl f \<Rightarrow> Inl f
      | Inr s' \<Rightarrow> protocol_v2_process s' ys)"
  by (induction xs arbitrary: s) (auto split: sum.splits)

lemma protocol_v2_process_chunks_concat:
  "protocol_v2_process_chunks s chunks = protocol_v2_process s (concat chunks)"
  by (induction chunks arbitrary: s)
     (auto simp: protocol_v2_process_append split: sum.splits)

text \<open>
  Claim C2. For every byte sequence and every starting state of the receiver, feeding the
  bytes one call per byte, or in chunks cut at any boundaries, ends in the same result as
  feeding them as one block. The result is the whole firmware state: the receiver's
  state and buffer, everything the accepted frames' commands changed, and the responses
  written to the serial port, one per accepted frame, in order (or the same fault).
\<close>

theorem receiver_chunk_independent:
  "protocol_v2_process_chunks s chunks = protocol_v2_process s (concat chunks)
   \<and> protocol_v2_process_chunks s (map (\<lambda>byte. [byte]) bytes) = protocol_v2_process s bytes"
proof -
  have "concat (map (\<lambda>byte. [byte]) bytes) = bytes"
    by (induction bytes) simp_all
  then show ?thesis
    by (simp add: protocol_v2_process_chunks_concat)
qed

section \<open>Reception of one frame\<close>

lemma length_word16: "(ucast (ucast (L::u16) :: u8) :: u16) OR push_bit 8 (ucast (ucast (drop_bit 8 L) :: u8)) = L"
  by (rule bit_word_eqI) (auto simp: bit_simps)

lemma low_byte_mask: "(ucast ((L::u16) AND 0xFF) :: u8) = ucast L"
proof -
  have m: "(0xFF :: u16) = mask 8" by (simp add: mask_eq_exp_minus_1)
  show ?thesis unfolding m by (rule bit_word_eqI) (auto simp: bit_simps)
qed

lemma rx_payload_bytes:
  assumes "rx_state s = RX_WAIT_PAYLOAD"
    and "unat (rx_payload_received s) + length xs = unat (rx_payload_length s)"
    and "xs \<noteq> []"
    and "unat (rx_payload_length s) \<le> 506"
    and "unat (rx_payload_length s) \<le> length (rx_buffer s)"
  shows "protocol_v2_process s (xs @ rest) =
         protocol_v2_process
           (s\<lparr>rx_buffer := take (unat (rx_payload_received s)) (rx_buffer s) @ xs @
                             drop (unat (rx_payload_length s)) (rx_buffer s),
              rx_payload_received := rx_payload_length s,
              rx_state := RX_WAIT_CRC_0\<rparr>) rest"
  using assms
proof (induction xs arbitrary: s)
  case Nil
  then show ?case by simp
next
  case (Cons x xs)
  let ?k = "unat (rx_payload_received s)"
  let ?n = "unat (rx_payload_length s)"
  have k: "?k < ?n" using Cons.prems by simp
  have k1: "unat (rx_payload_received s + 1) = ?k + 1"
    using k Cons.prems(4) by (simp add: unat_word_ariths)
  have nofault: "\<not> unat RX_BUFFER_SIZE \<le> ?k"
    using k Cons.prems(4) by (simp add: RX_BUFFER_SIZE_def)
  have upd: "(rx_buffer s)[?k := x] = take ?k (rx_buffer s) @ x # drop (Suc ?k) (rx_buffer s)"
    using k Cons.prems(5) by (simp add: upd_conv_take_nth_drop)
  show ?case
  proof (cases "xs = []")
    case True
    then have "rx_payload_received s + 1 = rx_payload_length s"
      using Cons.prems(2) k1 by (metis One_nat_def Suc_eq_plus1 add.commute length_Cons list.size(3) word_unat_eq_iff)
    then show ?thesis
      using Cons.prems(1) nofault True upd Cons.prems(2)
      by (simp add: rx_byte_def)
  next
    case False
    then have lt: "\<not> rx_payload_length s \<le> rx_payload_received s + 1"
      using Cons.prems(2) k1 by (cases xs) (simp_all add: word_le_nat_alt)
    let ?s1 = "s\<lparr>rx_buffer := (rx_buffer s)[?k := x], rx_payload_received := rx_payload_received s + 1\<rparr>"
    have step: "rx_byte s x = Inr ?s1"
      using Cons.prems(1) nofault lt by (simp add: rx_byte_def)
    have "protocol_v2_process ?s1 (xs @ rest) =
          protocol_v2_process
           (?s1\<lparr>rx_buffer := take (unat (rx_payload_received ?s1)) (rx_buffer ?s1) @ xs @
                             drop (unat (rx_payload_length ?s1)) (rx_buffer ?s1),
              rx_payload_received := rx_payload_length ?s1,
              rx_state := RX_WAIT_CRC_0\<rparr>) rest"
      using Cons.prems False k1 by (intro Cons.IH) simp_all
    moreover have "take (Suc ?k) ((rx_buffer s)[?k := x]) = take ?k (rx_buffer s) @ [x]"
      using k Cons.prems(5) by (simp add: upd)
    moreover have "drop ?n ((rx_buffer s)[?k := x]) = drop ?n (rx_buffer s)"
      using k by simp
    ultimately show ?thesis
      using step k1 by simp
  qed
qed

lemma rx_frame_after_header_0:
  fixes payload :: "u8 list"
  assumes len: "1 \<le> length payload" "length payload \<le> 506"
    and st: "rx_state s = RX_WAIT_HEADER_1"
    and buf: "length (rx_buffer s) = 512"
    and L: "L = (of_nat (length payload) :: u16)"
    and crc: "crc_rx = (ucast crc_lo :: u16) OR push_bit 8 (ucast crc_hi)"
    and s1: "s1 = s\<lparr>rx_state := RX_WAIT_CRC_1,
                      rx_buffer := payload @ drop (length payload) (rx_buffer s),
                      rx_payload_length := L,
                      rx_payload_received := L,
                      rx_crc_received := crc_rx\<rparr>"
  shows "protocol_v2_process s
           ([PACKET_HEADER_1, ucast L, ucast (drop_bit 8 L)] @ payload @ [crc_lo, crc_hi]) =
         Inr (if crc16_ccitt ([ucast L, ucast (drop_bit 8 L)] @ payload) (L + 2) = crc_rx
              then (process_command (rx_buffer s1) L s1)\<lparr>rx_state := RX_WAIT_HEADER_0\<rparr>
              else s1\<lparr>rx_state := RX_WAIT_HEADER_0\<rparr>)"
proof -
  have uL: "unat L = length payload"
    using len L by (simp add: unat_of_nat)
  have L0: "L \<noteq> 0" using uL len by (metis not_one_le_zero unat_0)
  have Lmax: "\<not> PACKET_MAX_PAYLOAD < L"
    using uL len by (simp add: PACKET_MAX_PAYLOAD_def word_less_nat_alt)
  let ?s4 = "s\<lparr>rx_payload_length := L, rx_payload_received := 0, rx_state := RX_WAIT_PAYLOAD\<rparr>"
  have head: "protocol_v2_process s ([PACKET_HEADER_1, ucast L, ucast (drop_bit 8 L)] @ rest) =
              protocol_v2_process ?s4 rest" for rest
    using st L0 Lmax by (simp add: rx_byte_def length_word16)
  let ?s5 = "?s4\<lparr>rx_buffer := take (unat (rx_payload_received ?s4)) (rx_buffer ?s4) @ payload @
                          drop (unat (rx_payload_length ?s4)) (rx_buffer ?s4),
                rx_payload_received := rx_payload_length ?s4,
                rx_state := RX_WAIT_CRC_0\<rparr>"
  have body: "protocol_v2_process ?s4 (payload @ [crc_lo, crc_hi]) =
              protocol_v2_process ?s5 [crc_lo, crc_hi]"
    using len uL buf by (intro rx_payload_bytes) auto
  have s5: "?s5 = s\<lparr>rx_state := RX_WAIT_CRC_0,
                      rx_buffer := payload @ drop (length payload) (rx_buffer s),
                      rx_payload_length := L,
                      rx_payload_received := L\<rparr>"
    using uL by simp
  have tk: "take (unat L) (payload @ drop (length payload) (rx_buffer s)) = payload"
    using uL by simp
  have tail: "protocol_v2_process ?s5 [crc_lo, crc_hi] =
         Inr (if crc16_ccitt ([ucast L, ucast (drop_bit 8 L)] @ payload) (L + 2) = crc_rx
              then (process_command (rx_buffer s1) L s1)\<lparr>rx_state := RX_WAIT_HEADER_0\<rparr>
              else s1\<lparr>rx_state := RX_WAIT_HEADER_0\<rparr>)"
  proof -
    have s1': "s1 = s\<lparr>rx_buffer := payload @ drop (length payload) (rx_buffer s),
                       rx_payload_length := L, rx_payload_received := L,
                       rx_state := RX_WAIT_CRC_1, rx_crc_received := crc_rx\<rparr>"
      unfolding s1 by (cases s) simp
    show ?thesis
      unfolding s5 s1' using Lmax tk
      by (simp add: rx_byte_def low_byte_mask crc Let_def)
  qed
  show ?thesis
    using head [of "payload @ [crc_lo, crc_hi]"] body tail by simp
qed


lemma crc16_get_state_example: "crc16_ccitt [2, 0, 1, 0xF0] 4 = 0xB586"
  by code_simp

text \<open>
  Claim C1. The receiver waits for a header; the payload has between 1 and 506 bytes and
  \<open>L\<close> is its length; the bytes fed are \<open>0xAA, 0xBB, L_lo, L_hi\<close>, the payload,
  \<open>crc_lo, crc_hi\<close>. Then the run ends without a fault; when the CRC-16 of
  \<open>L_lo, L_hi\<close> and the payload is the received little-endian value, \<open>process_command\<close>
  ran once, on a buffer whose first \<open>L\<close> bytes are the payload and with length \<open>L\<close>;
  when it is not, \<open>process_command\<close> did not run and nothing but the receiver's own
  variables changed; in both cases the receiver is back in \<open>RX_WAIT_HEADER_0\<close>.
\<close>

theorem valid_frame_dispatched:
  fixes payload :: "u8 list"
  assumes "1 \<le> length payload" and "length payload \<le> 506"
    and "rx_state s = RX_WAIT_HEADER_0"
    and "length (rx_buffer s) = 512"
    and "L = (of_nat (length payload) :: u16)"
    and "L_lo = (ucast L :: u8)" and "L_hi = (ucast (drop_bit 8 L) :: u8)"
    and "crc_rx = (ucast crc_lo :: u16) OR push_bit 8 (ucast crc_hi)"
    and "s1 = s\<lparr>rx_state := RX_WAIT_CRC_1,
                   rx_buffer := payload @ drop (length payload) (rx_buffer s),
                   rx_payload_length := L,
                   rx_payload_received := L,
                   rx_crc_received := crc_rx\<rparr>"
  shows "protocol_v2_process s ([0xAA, 0xBB, L_lo, L_hi] @ payload @ [crc_lo, crc_hi]) =
           Inr (if crc16_ccitt ([L_lo, L_hi] @ payload) (L + 2) = crc_rx
                then (process_command (rx_buffer s1) L s1)\<lparr>rx_state := RX_WAIT_HEADER_0\<rparr>
                else s1\<lparr>rx_state := RX_WAIT_HEADER_0\<rparr>)
         \<and> take (unat L) (rx_buffer s1) = payload
         \<and> unat L = length payload"
proof -
  let ?s0 = "s\<lparr>rx_state := RX_WAIT_HEADER_1\<rparr>"
  have first: "rx_byte s 0xAA = Inr ?s0"
    using assms(3) by (simp add: rx_byte_def PACKET_HEADER_0_def)
  have s1: "s1 = ?s0\<lparr>rx_state := RX_WAIT_CRC_1,
                   rx_buffer := payload @ drop (length payload) (rx_buffer ?s0),
                   rx_payload_length := L,
                   rx_payload_received := L,
                   rx_crc_received := crc_rx\<rparr>"
    using assms(9) by simp
  have "protocol_v2_process ?s0
           ([PACKET_HEADER_1, ucast L, ucast (drop_bit 8 L)] @ payload @ [crc_lo, crc_hi]) =
         Inr (if crc16_ccitt ([ucast L, ucast (drop_bit 8 L)] @ payload) (L + 2) = crc_rx
              then (process_command (rx_buffer s1) L s1)\<lparr>rx_state := RX_WAIT_HEADER_0\<rparr>
              else s1\<lparr>rx_state := RX_WAIT_HEADER_0\<rparr>)"
    using assms(1,2,4,5,8) s1 by (intro rx_frame_after_header_0) simp_all
  moreover have "unat L = length payload"
    using assms(1,2,5) by (simp add: unat_of_nat)
  ultimately show ?thesis
    using first assms(6,7,9) by (simp add: PACKET_HEADER_1_def)
qed

theorem valid_frame_dispatched_witness:
  "protocol_v2_process power_on [0xAA, 0xBB, 2, 0, 1, 0xF0, 0x86, 0xB5] =
     Inr ((process_command ([1, 0xF0] @ replicate 510 0) 2
             (power_on\<lparr>rx_state := RX_WAIT_CRC_1,
                       rx_buffer := [1, 0xF0] @ replicate 510 0,
                       rx_payload_length := 2,
                       rx_payload_received := 2,
                       rx_crc_received := 0xB586\<rparr>))
          \<lparr>rx_state := RX_WAIT_HEADER_0\<rparr>)
   \<and> protocol_v2_process power_on [0xAA, 0xBB, 2, 0, 1, 0xF0, 0x86, 0xB4] =
     Inr (power_on\<lparr>rx_buffer := [1, 0xF0] @ replicate 510 0,
                   rx_payload_length := 2,
                   rx_payload_received := 2,
                   rx_crc_received := 0xB486,
                   rx_state := RX_WAIT_HEADER_0\<rparr>)"
proof -
  have st: "rx_state power_on = RX_WAIT_HEADER_0" and buf: "length (rx_buffer power_on) = 512"
    by (simp_all add: power_on_def)
  have dr: "drop (Suc (Suc 0)) (rx_buffer power_on) = replicate 510 0"
    by (simp add: power_on_def)
  have c1: "(ucast (0x86 :: u8) :: u16) OR push_bit 8 (ucast (0xB5 :: u8)) = 0xB586"
    by simp
  have c2: "(ucast (0x86 :: u8) :: u16) OR push_bit 8 (ucast (0xB4 :: u8)) = 0xB486"
    by simp
  have a: "1 \<le> length [1, 0xF0 :: u8]" and b: "length [1, 0xF0 :: u8] \<le> 506"
    by simp_all
  note ok = valid_frame_dispatched [OF a b st buf refl refl refl refl refl,
      where crc_lo = "0x86" and crc_hi = "0xB5"]
  note bad = valid_frame_dispatched [OF a b st buf refl refl refl refl refl,
      where crc_lo = "0x86" and crc_hi = "0xB4"]
  show ?thesis
    using ok bad by (simp add: c1 c2 dr crc16_get_state_example)
qed

section \<open>Resynchronisation on a repeated first header byte\<close>

text \<open>
  Claim C3. In \<open>RX_WAIT_HEADER_1\<close> the byte 0xBB moves the receiver to
  \<open>RX_WAIT_LENGTH_0\<close>, the byte 0xAA leaves the state as it is, and every other byte
  sends it back to \<open>RX_WAIT_HEADER_0\<close>. So an extra 0xAA in front of a well-formed
  frame (valid length, matching CRC) changes nothing: the frame that starts at the second
  0xAA is received, and \<open>process_command\<close> runs on its payload.
\<close>

theorem resync_on_repeated_header:
  fixes payload :: "u8 list"
  assumes "rx_state t = RX_WAIT_HEADER_1"
    and "1 \<le> length payload" and "length payload \<le> 506"
    and "rx_state s = RX_WAIT_HEADER_0"
    and "length (rx_buffer s) = 512"
    and "L = (of_nat (length payload) :: u16)"
    and "L_lo = (ucast L :: u8)" and "L_hi = (ucast (drop_bit 8 L) :: u8)"
    and "crc16_ccitt ([L_lo, L_hi] @ payload) (L + 2) = (ucast crc_lo :: u16) OR push_bit 8 (ucast crc_hi)"
    and "frame = [0xAA, 0xBB, L_lo, L_hi] @ payload @ [crc_lo, crc_hi]"
    and "s1 = s\<lparr>rx_state := RX_WAIT_CRC_1,
                   rx_buffer := payload @ drop (length payload) (rx_buffer s),
                   rx_payload_length := L,
                   rx_payload_received := L,
                   rx_crc_received := (ucast crc_lo :: u16) OR push_bit 8 (ucast crc_hi)\<rparr>"
  shows "rx_byte t 0xBB = Inr (t\<lparr>rx_state := RX_WAIT_LENGTH_0\<rparr>)
         \<and> rx_byte t 0xAA = Inr t
         \<and> (\<forall>byte. byte \<noteq> 0xBB \<and> byte \<noteq> 0xAA \<longrightarrow>
                rx_byte t byte = Inr (t\<lparr>rx_state := RX_WAIT_HEADER_0\<rparr>))
         \<and> protocol_v2_process s (0xAA # frame) =
             Inr ((process_command (rx_buffer s1) L s1)\<lparr>rx_state := RX_WAIT_HEADER_0\<rparr>)
         \<and> protocol_v2_process s (0xAA # frame) = protocol_v2_process s frame
         \<and> take (unat L) (rx_buffer s1) = payload"
proof -
  have steps: "rx_byte t 0xBB = Inr (t\<lparr>rx_state := RX_WAIT_LENGTH_0\<rparr>)"
      "rx_byte t 0xAA = Inr t"
      "\<forall>byte. byte \<noteq> 0xBB \<and> byte \<noteq> 0xAA \<longrightarrow>
                rx_byte t byte = Inr (t\<lparr>rx_state := RX_WAIT_HEADER_0\<rparr>)"
    using assms(1) by (simp_all add: rx_byte_def PACKET_HEADER_0_def PACKET_HEADER_1_def)
  let ?s0 = "s\<lparr>rx_state := RX_WAIT_HEADER_1\<rparr>"
  have first: "rx_byte s 0xAA = Inr ?s0"
    using assms(4) by (simp add: rx_byte_def PACKET_HEADER_0_def)
  have again: "rx_byte ?s0 0xAA = Inr ?s0"
    by (simp add: rx_byte_def PACKET_HEADER_0_def PACKET_HEADER_1_def)
  have s1: "s1 = ?s0\<lparr>rx_state := RX_WAIT_CRC_1,
                   rx_buffer := payload @ drop (length payload) (rx_buffer ?s0),
                   rx_payload_length := L,
                   rx_payload_received := L,
                   rx_crc_received := (ucast crc_lo :: u16) OR push_bit 8 (ucast crc_hi)\<rparr>"
    using assms(11) by simp
  have rest: "protocol_v2_process ?s0
           ([PACKET_HEADER_1, ucast L, ucast (drop_bit 8 L)] @ payload @ [crc_lo, crc_hi]) =
         Inr (if crc16_ccitt ([ucast L, ucast (drop_bit 8 L)] @ payload) (L + 2) =
                   (ucast crc_lo :: u16) OR push_bit 8 (ucast crc_hi)
              then (process_command (rx_buffer s1) L s1)\<lparr>rx_state := RX_WAIT_HEADER_0\<rparr>
              else s1\<lparr>rx_state := RX_WAIT_HEADER_0\<rparr>)"
    using assms(2,3,5,6) s1 by (intro rx_frame_after_header_0) simp_all
  have run: "protocol_v2_process ?s0 ([0xBB, L_lo, L_hi] @ payload @ [crc_lo, crc_hi]) =
             Inr ((process_command (rx_buffer s1) L s1)\<lparr>rx_state := RX_WAIT_HEADER_0\<rparr>)"
    using rest assms(7,8,9) by (simp add: PACKET_HEADER_1_def)
  have one: "protocol_v2_process s frame =
             Inr ((process_command (rx_buffer s1) L s1)\<lparr>rx_state := RX_WAIT_HEADER_0\<rparr>)"
    using first run assms(10) by simp
  have two: "protocol_v2_process s (0xAA # frame) =
             Inr ((process_command (rx_buffer s1) L s1)\<lparr>rx_state := RX_WAIT_HEADER_0\<rparr>)"
    using first again run assms(10) by simp
  have "unat L = length payload"
    using assms(2,3,6) by (simp add: unat_of_nat)
  then have "take (unat L) (rx_buffer s1) = payload"
    using assms(11) by simp
  then show ?thesis
    using steps one two by simp
qed

theorem resync_on_repeated_header_witness:
  "rx_byte (power_on\<lparr>rx_state := RX_WAIT_HEADER_1\<rparr>) 0xBB =
     Inr (power_on\<lparr>rx_state := RX_WAIT_LENGTH_0\<rparr>)
   \<and> rx_byte (power_on\<lparr>rx_state := RX_WAIT_HEADER_1\<rparr>) 0xAA =
     Inr (power_on\<lparr>rx_state := RX_WAIT_HEADER_1\<rparr>)
   \<and> protocol_v2_process power_on [0xAA, 0xAA, 0xBB, 2, 0, 1, 0xF0, 0x86, 0xB5] =
     protocol_v2_process power_on [0xAA, 0xBB, 2, 0, 1, 0xF0, 0x86, 0xB5]
   \<and> protocol_v2_process power_on [0xAA, 0xAA, 0xBB, 2, 0, 1, 0xF0, 0x86, 0xB5] =
     Inr ((process_command ([1, 0xF0] @ replicate 510 0) 2
             (power_on\<lparr>rx_state := RX_WAIT_CRC_1,
                       rx_buffer := [1, 0xF0] @ replicate 510 0,
                       rx_payload_length := 2,
                       rx_payload_received := 2,
                       rx_crc_received := 0xB586\<rparr>))
          \<lparr>rx_state := RX_WAIT_HEADER_0\<rparr>)"
proof -
  have t: "rx_state (power_on\<lparr>rx_state := RX_WAIT_HEADER_1\<rparr>) = RX_WAIT_HEADER_1"
    by simp
  have st: "rx_state power_on = RX_WAIT_HEADER_0" and buf: "length (rx_buffer power_on) = 512"
    by (simp_all add: power_on_def)
  have dr: "drop (Suc (Suc 0)) (rx_buffer power_on) = replicate 510 0"
    by (simp add: power_on_def)
  have a: "1 \<le> length [1, 0xF0 :: u8]" and b: "length [1, 0xF0 :: u8] \<le> 506"
    by simp_all
  have crc: "crc16_ccitt ([ucast (of_nat (length [1, 0xF0 :: u8]) :: u16),
                           ucast (drop_bit 8 (of_nat (length [1, 0xF0 :: u8]) :: u16))] @ [1, 0xF0])
               (of_nat (length [1, 0xF0 :: u8]) + 2) =
             (ucast (0x86 :: u8) :: u16) OR push_bit 8 (ucast (0xB5 :: u8))"
    by (simp add: crc16_get_state_example)
  show ?thesis
    using resync_on_repeated_header [OF t a b st buf refl refl refl crc refl refl]
    by (auto simp add: dr simp del: protocol_v2_process.simps)
qed

section \<open>Writes into the receive buffer stay in bounds\<close>

lemma process_command_rx:
  "rx_state (process_command p n s) = rx_state s"
  "rx_payload_length (process_command p n s) = rx_payload_length s"
  "rx_payload_received (process_command p n s) = rx_payload_received s"
  "rx_buffer (process_command p n s) = rx_buffer s"
  by (simp_all add: process_command_def handle_cmd_get_state_def handle_cmd_reset_def
      handle_cmd_get_version_def handle_unknown_command_def protocol_v2_send_response_def Let_def)

lemma rx_byte_in_bounds:
  assumes "rx_in_bounds s"
  shows "\<exists>s'. rx_byte s byte = Inr s' \<and> rx_in_bounds s'"
proof (cases "rx_state s")
  case RX_WAIT_PAYLOAD
  then have lt: "rx_payload_received s < rx_payload_length s"
    and le: "rx_payload_length s \<le> 506"
    using assms by (simp_all add: rx_in_bounds_def PACKET_MAX_PAYLOAD_def)
  have "unat (rx_payload_received s) < 512"
    using lt le by (simp add: word_less_nat_alt word_le_nat_alt)
  moreover have "rx_payload_length s \<le> rx_payload_received s + 1 \<or>
                 rx_payload_received s + 1 < rx_payload_length s"
    by auto
  ultimately show ?thesis
    using RX_WAIT_PAYLOAD le
    by (auto simp: rx_byte_def rx_in_bounds_def RX_BUFFER_SIZE_def PACKET_MAX_PAYLOAD_def Let_def)
next
  case RX_WAIT_LENGTH_1
  then show ?thesis
    by (auto simp: rx_byte_def rx_in_bounds_def Let_def word_neq_0_conv)
next
  case RX_WAIT_CRC_1
  then show ?thesis
    using assms
    by (auto simp: rx_byte_def rx_in_bounds_def Let_def process_command_rx)
qed (use assms in \<open>auto simp: rx_byte_def rx_in_bounds_def\<close>)

lemma protocol_v2_process_in_bounds:
  "rx_in_bounds s \<Longrightarrow> \<exists>s'. protocol_v2_process s bytes = Inr s' \<and> rx_in_bounds s'"
proof (induction bytes arbitrary: s)
  case Nil
  then show ?case by simp
next
  case (Cons byte bytes)
  from rx_byte_in_bounds [OF Cons.prems, of byte]
  obtain s1 where "rx_byte s byte = Inr s1" "rx_in_bounds s1" by blast
  with Cons.IH [of s1] show ?case by simp
qed


lemma rx_enter_payload:
  assumes "rx_state t \<noteq> RX_WAIT_PAYLOAD" and "rx_byte t byte = Inr t'"
    and "rx_state t' = RX_WAIT_PAYLOAD"
  shows "rx_payload_received t' = 0 \<and> 1 \<le> unat (rx_payload_length t')
         \<and> unat (rx_payload_length t') \<le> 506"
proof (cases "rx_state t")
  case RX_WAIT_LENGTH_1
  then show ?thesis
    using assms(2,3)
    by (auto simp: rx_byte_def Let_def PACKET_MAX_PAYLOAD_def word_less_nat_alt unat_gt_0
        Suc_le_eq split: if_splits)
next
  case RX_WAIT_CRC_1
  then show ?thesis
    using assms(2,3) by (auto simp: rx_byte_def Let_def split: if_splits)
qed (use assms in \<open>auto simp: rx_byte_def split: if_splits\<close>)

lemma rx_buffer_written:
  assumes "rx_byte t byte = Inr t'"
  shows "rx_buffer t' =
           (if rx_state t = RX_WAIT_PAYLOAD
            then (rx_buffer t)[unat (rx_payload_received t) := byte]
            else rx_buffer t)"
    and "rx_state t = RX_WAIT_PAYLOAD \<Longrightarrow> unat (rx_payload_received t) < 512"
  using assms
  by (cases "rx_state t";
      auto simp: rx_byte_def Let_def process_command_rx RX_BUFFER_SIZE_def split: if_splits)+

text \<open>
  Claim C10. From a receiver that waits for a header, no input makes the receiver index
  \<open>rx_buffer\<close> out of range: every run ends without a fault, and whenever the receiver
  is in \<open>RX_WAIT_PAYLOAD\<close>, where the next byte is stored at index
  \<open>rx_payload_received\<close>, that index is below \<open>rx_payload_length\<close>, which is between 1
  and 506, so it is at most 505. The receiver enters \<open>RX_WAIT_PAYLOAD\<close> only with a
  length between 1 and 506 and \<open>rx_payload_received = 0\<close>, and a step writes the buffer
  only in \<open>RX_WAIT_PAYLOAD\<close>, at index \<open>rx_payload_received\<close>.
\<close>

theorem rx_buffer_writes_in_bounds:
  assumes "rx_state s = RX_WAIT_HEADER_0"
  shows "(\<exists>s'. protocol_v2_process s bytes = Inr s' \<and>
            (rx_state s' = RX_WAIT_PAYLOAD \<longrightarrow>
               unat (rx_payload_received s') < unat (rx_payload_length s') \<and>
               1 \<le> unat (rx_payload_length s') \<and>
               unat (rx_payload_length s') \<le> 506 \<and>
               unat (rx_payload_received s') \<le> 505 \<and>
               unat (rx_payload_received s') < unat RX_BUFFER_SIZE))
         \<and> (\<forall>t byte t'. rx_state t \<noteq> RX_WAIT_PAYLOAD \<and> rx_byte t byte = Inr t' \<and>
               rx_state t' = RX_WAIT_PAYLOAD \<longrightarrow>
               rx_payload_received t' = 0 \<and> 1 \<le> unat (rx_payload_length t') \<and>
               unat (rx_payload_length t') \<le> 506)
         \<and> (\<forall>t byte t'. rx_byte t byte = Inr t' \<longrightarrow>
               rx_buffer t' =
                 (if rx_state t = RX_WAIT_PAYLOAD
                  then (rx_buffer t)[unat (rx_payload_received t) := byte]
                  else rx_buffer t))"
proof -
  have "rx_in_bounds s"
    using assms by (simp add: rx_in_bounds_def)
  then obtain s' where run: "protocol_v2_process s bytes = Inr s'" and inv: "rx_in_bounds s'"
    using protocol_v2_process_in_bounds by blast
  have "unat (rx_payload_received s') < unat (rx_payload_length s') \<and>
        1 \<le> unat (rx_payload_length s') \<and>
        unat (rx_payload_length s') \<le> 506 \<and>
        unat (rx_payload_received s') \<le> 505 \<and>
        unat (rx_payload_received s') < unat RX_BUFFER_SIZE"
    if "rx_state s' = RX_WAIT_PAYLOAD"
  proof -
    have "rx_payload_received s' < rx_payload_length s'" "rx_payload_length s' \<le> 506"
      using inv that by (simp_all add: rx_in_bounds_def PACKET_MAX_PAYLOAD_def)
    then have "unat (rx_payload_received s') < unat (rx_payload_length s')"
      "unat (rx_payload_length s') \<le> 506"
      by (simp_all add: word_less_nat_alt word_le_nat_alt)
    then show ?thesis by (simp add: RX_BUFFER_SIZE_def)
  qed
  with run have first: "\<exists>s'. protocol_v2_process s bytes = Inr s' \<and>
            (rx_state s' = RX_WAIT_PAYLOAD \<longrightarrow>
               unat (rx_payload_received s') < unat (rx_payload_length s') \<and>
               1 \<le> unat (rx_payload_length s') \<and>
               unat (rx_payload_length s') \<le> 506 \<and>
               unat (rx_payload_received s') \<le> 505 \<and>
               unat (rx_payload_received s') < unat RX_BUFFER_SIZE)"
    by blast
  show ?thesis
    using first rx_enter_payload rx_buffer_written(1) by blast
qed

theorem rx_buffer_writes_in_bounds_witness:
  "\<exists>s'. protocol_v2_process power_on [0xAA, 0xBB, 3, 0, 7] = Inr s'
         \<and> rx_state s' = RX_WAIT_PAYLOAD
         \<and> unat (rx_payload_received s') = 1
         \<and> unat (rx_payload_received s') < unat (rx_payload_length s')
         \<and> unat (rx_payload_received s') \<le> 505"
proof -
  have st: "rx_state power_on = RX_WAIT_HEADER_0"
    by (simp add: power_on_def)
  have run: "protocol_v2_process power_on [0xAA, 0xBB, 3, 0, 7] =
        Inr (power_on\<lparr>rx_payload_length := 3,
                      rx_state := RX_WAIT_PAYLOAD,
                      rx_buffer := (rx_buffer power_on)[0 := 7],
                      rx_payload_received := 1\<rparr>)"
    using st
    by (simp add: rx_byte_def PACKET_HEADER_0_def PACKET_HEADER_1_def PACKET_MAX_PAYLOAD_def
        RX_BUFFER_SIZE_def Let_def word_le_nat_alt)
  show ?thesis
    using rx_buffer_writes_in_bounds [OF st, of "[0xAA, 0xBB, 3, 0, 7]"] run
    by auto
qed

section \<open>The response snapshot\<close>

lemma axis_state_distinct:
  "AXIS_IDLE \<noteq> AXIS_MOVING" "AXIS_IDLE \<noteq> AXIS_HOMING" "AXIS_MOVING \<noteq> AXIS_HOMING"
  "AXIS_ERROR \<noteq> AXIS_IDLE" "AXIS_ERROR \<noteq> AXIS_MOVING" "AXIS_ERROR \<noteq> AXIS_HOMING"
  by (simp_all add: AXIS_IDLE_def AXIS_MOVING_def AXIS_HOMING_def AXIS_ERROR_def)

lemma build_response_axes:
  "length (axes (protocol_v2_build_response s cid st err)) = 4"
  "state (axes (protocol_v2_build_response s cid st err) ! 0) =
     (if is_homing_X s \<or> is_preparing_for_homing_X s then AXIS_HOMING
      else if X_commanded_movement_in_progress s then AXIS_MOVING else AXIS_IDLE)"
  "state (axes (protocol_v2_build_response s cid st err) ! 1) =
     (if is_homing_Y s \<or> is_preparing_for_homing_Y s then AXIS_HOMING
      else if Y_commanded_movement_in_progress s then AXIS_MOVING else AXIS_IDLE)"
  "state (axes (protocol_v2_build_response s cid st err) ! 2) =
     (if is_homing_Z s \<or> is_preparing_for_homing_Z s then AXIS_HOMING
      else if Z_commanded_movement_in_progress s then AXIS_MOVING else AXIS_IDLE)"
  "state (axes (protocol_v2_build_response s cid st err) ! 3) =
     (if is_homing_W s \<or> is_preparing_for_homing_W s then AXIS_HOMING
      else if W_commanded_movement_in_progress s then AXIS_MOVING else AXIS_IDLE)"
  by (simp_all add: protocol_v2_build_response_def)

lemma build_response_homed:
  "homed (axes (protocol_v2_build_response s cid st err) ! 0) = (if home_X_found s then 1 else 0)"
  "homed (axes (protocol_v2_build_response s cid st err) ! 1) = (if home_Y_found s then 1 else 0)"
  "homed (axes (protocol_v2_build_response s cid st err) ! 2) = (if home_Z_found s then 1 else 0)"
  "homed (axes (protocol_v2_build_response s cid st err) ! 3) = (if home_W_found s then 1 else 0)"
  by (simp_all add: protocol_v2_build_response_def)

lemma build_response_fields:
  "cmd_id (protocol_v2_build_response s cid st err) = cid"
  "status (protocol_v2_build_response s cid st err) = st"
  "error_code (protocol_v2_build_response s cid st err) = err"
  "system_mode (protocol_v2_build_response s cid st err) = MODE_NORMAL"
  "illum_on_mask (protocol_v2_build_response s cid st err) = illumination_channel_states s"
  "led_pattern (protocol_v2_build_response s cid st err) = current_led_pattern s"
  by (simp_all add: protocol_v2_build_response_def)

lemma bytes_of_AxisStatus_length: "length (bytes_of_AxisStatus a) = 12"
  by (simp add: bytes_of_AxisStatus_def le32_def)

lemma bytes_of_AxisStatus_state: "bytes_of_AxisStatus a ! 8 = state a"
  by (simp add: bytes_of_AxisStatus_def le32_def)

lemma response_bytes_length:
  "length (bytes_of_ResponsePacket (protocol_v2_build_response s cid st err)) = unat RESPONSE_SIZE"
proof -
  have "length (concat (map le16 (replicate 8 0))) = 16"
    by (simp add: length_concat le16_def sum_list_replicate)
  moreover have "length (le16 w) = 2" for w
    by (simp add: le16_def)
  ultimately show ?thesis
    by (simp add: bytes_of_ResponsePacket_def protocol_v2_build_response_def
        zero_ResponsePacket_def bytes_of_AxisStatus_def le32_def RESPONSE_SIZE_def)
qed

lemma response_bytes_head:
  "take 4 (bytes_of_ResponsePacket r) = [cmd_id r, status r, error_code r, system_mode r]"
  by (simp add: bytes_of_ResponsePacket_def)

lemma response_bytes_axis_state:
  assumes "axes r = [a0, a1, a2, a3]"
  shows "bytes_of_ResponsePacket r ! 12 = state a0"
    "bytes_of_ResponsePacket r ! 24 = state a1"
    "bytes_of_ResponsePacket r ! 36 = state a2"
    "bytes_of_ResponsePacket r ! 48 = state a3"
  using assms
  by (simp_all add: bytes_of_ResponsePacket_def bytes_of_AxisStatus_def le32_def)

text \<open>
  Claim C4. For each of the four axes and whatever the three flags are,
  \<open>protocol_v2_build_response\<close> sets the axis's state to \<open>AXIS_HOMING\<close> when
  \<open>is_homing\<close> or \<open>is_preparing_for_homing\<close> holds, else to \<open>AXIS_MOVING\<close> when the
  commanded movement is in progress, else to \<open>AXIS_IDLE\<close>. The three values differ, none
  is \<open>AXIS_ERROR\<close>, and the state is the byte at offset 12, 24, 36 and 48 of the
  serialised response.
\<close>

theorem axis_state_precedence:
  "state (axes (protocol_v2_build_response s cid st err) ! 0) =
     (if is_homing_X s \<or> is_preparing_for_homing_X s then AXIS_HOMING
      else if X_commanded_movement_in_progress s then AXIS_MOVING else AXIS_IDLE)
   \<and> state (axes (protocol_v2_build_response s cid st err) ! 1) =
     (if is_homing_Y s \<or> is_preparing_for_homing_Y s then AXIS_HOMING
      else if Y_commanded_movement_in_progress s then AXIS_MOVING else AXIS_IDLE)
   \<and> state (axes (protocol_v2_build_response s cid st err) ! 2) =
     (if is_homing_Z s \<or> is_preparing_for_homing_Z s then AXIS_HOMING
      else if Z_commanded_movement_in_progress s then AXIS_MOVING else AXIS_IDLE)
   \<and> state (axes (protocol_v2_build_response s cid st err) ! 3) =
     (if is_homing_W s \<or> is_preparing_for_homing_W s then AXIS_HOMING
      else if W_commanded_movement_in_progress s then AXIS_MOVING else AXIS_IDLE)
   \<and> length (axes (protocol_v2_build_response s cid st err)) = 4
   \<and> AXIS_HOMING \<noteq> AXIS_MOVING \<and> AXIS_HOMING \<noteq> AXIS_IDLE \<and> AXIS_MOVING \<noteq> AXIS_IDLE
   \<and> AXIS_ERROR \<notin> {AXIS_HOMING, AXIS_MOVING, AXIS_IDLE}
   \<and> map (\<lambda>k. bytes_of_ResponsePacket (protocol_v2_build_response s cid st err) ! k)
         [12, 24, 36, 48] =
       map state (axes (protocol_v2_build_response s cid st err))"
proof -
  obtain a0 a1 a2 a3 where ax: "axes (protocol_v2_build_response s cid st err) = [a0, a1, a2, a3]"
    by (simp add: protocol_v2_build_response_def)
  have "map (\<lambda>k. bytes_of_ResponsePacket (protocol_v2_build_response s cid st err) ! k)
         [12, 24, 36, 48] =
       map state (axes (protocol_v2_build_response s cid st err))"
    using response_bytes_axis_state [OF ax] ax by simp
  then show ?thesis
    using build_response_axes [of s cid st err] axis_state_distinct
    by (simp del: One_nat_def)
qed


theorem axis_state_precedence_witness:
  "map state
     (axes (protocol_v2_build_response
              (power_on\<lparr>is_homing_X := True, X_commanded_movement_in_progress := True,
                        Y_commanded_movement_in_progress := True,
                        is_preparing_for_homing_W := True\<rparr>) 7 STATUS_OK ERR_NONE)) =
   [AXIS_HOMING, AXIS_MOVING, AXIS_IDLE, AXIS_HOMING]"
proof -
  let ?s = "power_on\<lparr>is_homing_X := True, X_commanded_movement_in_progress := True,
                      Y_commanded_movement_in_progress := True,
                      is_preparing_for_homing_W := True\<rparr>"
  let ?r = "protocol_v2_build_response ?s 7 STATUS_OK ERR_NONE"
  have "length (axes ?r) = 4" and "state (axes ?r ! 0) = AXIS_HOMING"
    and "state (axes ?r ! 1) = AXIS_MOVING" and "state (axes ?r ! 2) = AXIS_IDLE"
    and "state (axes ?r ! 3) = AXIS_HOMING"
    using axis_state_precedence [of ?s 7 STATUS_OK ERR_NONE]
    by (simp_all add: power_on_def)
  then show ?thesis
    by (simp add: list_eq_iff_nth_eq less_Suc_eq numeral_eq_Suc)
qed

section \<open>Command dispatch\<close>

lemma process_command_reset:
  assumes "\<not> len < 2" and "payload ! 1 = CMD_RESET"
  shows "process_command payload len s = handle_cmd_reset (payload ! 0) s"
  using assms by (simp add: process_command_def CMD_RESET_def CMD_GET_STATE_def)

lemma process_command_get_state:
  assumes "\<not> len < 2" and "payload ! 1 = CMD_GET_STATE"
  shows "process_command payload len s = handle_cmd_get_state (payload ! 0) s"
  using assms by (simp add: process_command_def)

lemma handle_cmd_reset_flags:
  "is_homing_X (handle_cmd_reset cid s) = False"
  "is_homing_Y (handle_cmd_reset cid s) = False"
  "is_homing_Z (handle_cmd_reset cid s) = False"
  "is_homing_W (handle_cmd_reset cid s) = False"
  "is_preparing_for_homing_X (handle_cmd_reset cid s) = False"
  "is_preparing_for_homing_Y (handle_cmd_reset cid s) = False"
  "is_preparing_for_homing_Z (handle_cmd_reset cid s) = False"
  "is_preparing_for_homing_W (handle_cmd_reset cid s) = False"
  "X_commanded_movement_in_progress (handle_cmd_reset cid s) = False"
  "Y_commanded_movement_in_progress (handle_cmd_reset cid s) = False"
  "Z_commanded_movement_in_progress (handle_cmd_reset cid s) = False"
  "W_commanded_movement_in_progress (handle_cmd_reset cid s) = False"
  "home_X_found (handle_cmd_reset cid s) = False"
  "home_Y_found (handle_cmd_reset cid s) = False"
  "home_Z_found (handle_cmd_reset cid s) = False"
  "home_W_found (handle_cmd_reset cid s) = False"
  "illumination_channel_states (handle_cmd_reset cid s) = 0"
  "current_led_pattern (handle_cmd_reset cid s) = 0"
  by (simp_all add: handle_cmd_reset_def protocol_v2_send_response_def Let_def)

text \<open>
  Claim C5. A RESET command (a payload of at least two bytes whose second byte is
  \<open>CMD_RESET\<close>) followed directly by a GET_STATE command: the GET_STATE handler writes
  one response, built from the state the reset left, and in it every axis has state
  \<open>AXIS_IDLE\<close> and \<open>homed = 0\<close>, and \<open>illum_on_mask\<close> and \<open>led_pattern\<close> are 0.
\<close>

theorem reset_then_get_state:
  assumes "2 \<le> len1" and "reset_payload ! 1 = CMD_RESET"
    and "2 \<le> len2" and "get_payload ! 1 = CMD_GET_STATE"
    and "s1 = process_command reset_payload len1 s"
    and "s2 = process_command get_payload len2 s1"
    and "r = protocol_v2_build_response s1 (get_payload ! 0) STATUS_OK ERR_NONE"
  shows "SerialUSB_written s2 = SerialUSB_written s1 @ [response_packet_bytes r]
         \<and> cmd_id r = get_payload ! 0 \<and> status r = STATUS_OK
         \<and> length (axes r) = 4
         \<and> (\<forall>i<4. state (axes r ! i) = AXIS_IDLE \<and> homed (axes r ! i) = 0)
         \<and> illum_on_mask r = 0 \<and> led_pattern r = 0"
proof -
  have s1: "s1 = handle_cmd_reset (reset_payload ! 0) s"
    using assms(1,2,5) by (simp add: process_command_reset not_less)
  have s2: "s2 = handle_cmd_get_state (get_payload ! 0) s1"
    using assms(3,4,6) by (simp add: process_command_get_state not_less)
  have tx: "SerialUSB_written s2 = SerialUSB_written s1 @ [response_packet_bytes r]"
    using s2 assms(7) by (simp add: handle_cmd_get_state_def protocol_v2_send_response_def)
  have ax: "state (axes r ! i) = AXIS_IDLE \<and> homed (axes r ! i) = 0" if "i < 4" for i
  proof -
    from that have "i = 0 \<or> i = 1 \<or> i = 2 \<or> i = 3" by arith
    then show ?thesis
      unfolding assms(7) s1
      by (elim disjE)
         (simp_all add: build_response_axes build_response_homed handle_cmd_reset_flags
            del: One_nat_def)
  qed
  show ?thesis
    using tx ax unfolding assms(7) s1
    by (simp add: build_response_fields build_response_axes handle_cmd_reset_flags)
qed


theorem reset_then_get_state_witness:
  "map state
     (axes (protocol_v2_build_response (process_command [9, 0xFF] 2 busy_example)
              10 STATUS_OK ERR_NONE)) = [AXIS_IDLE, AXIS_IDLE, AXIS_IDLE, AXIS_IDLE]
   \<and> map homed
     (axes (protocol_v2_build_response (process_command [9, 0xFF] 2 busy_example)
              10 STATUS_OK ERR_NONE)) = [0, 0, 0, 0]
   \<and> illum_on_mask (protocol_v2_build_response (process_command [9, 0xFF] 2 busy_example)
              10 STATUS_OK ERR_NONE) = 0
   \<and> led_pattern (protocol_v2_build_response (process_command [9, 0xFF] 2 busy_example)
              10 STATUS_OK ERR_NONE) = 0
   \<and> SerialUSB_written (process_command [10, 0xF0] 2 (process_command [9, 0xFF] 2 busy_example)) =
       SerialUSB_written (process_command [9, 0xFF] 2 busy_example) @
       [response_packet_bytes
          (protocol_v2_build_response (process_command [9, 0xFF] 2 busy_example)
              10 STATUS_OK ERR_NONE)]
   \<and> map state (axes (protocol_v2_build_response busy_example 10 STATUS_OK ERR_NONE)) =
       [AXIS_HOMING, AXIS_MOVING, AXIS_IDLE, AXIS_HOMING]"
proof -
  let ?s1 = "process_command [9, 0xFF] 2 busy_example"
  let ?r = "protocol_v2_build_response ?s1 10 STATUS_OK ERR_NONE"
  have a: "(2 :: u16) \<le> 2" by simp
  have b: "[9, 0xFF :: u8] ! 1 = CMD_RESET" by (simp add: CMD_RESET_def)
  have c: "[10, 0xF0 :: u8] ! 1 = CMD_GET_STATE" by (simp add: CMD_GET_STATE_def)
  have d: "protocol_v2_build_response ?s1 ([10, 0xF0 :: u8] ! 0) STATUS_OK ERR_NONE = ?r"
    by simp
  note w = reset_then_get_state [OF a b a c refl refl refl, of busy_example, unfolded d]
  from w have len: "length (axes ?r) = 4"
    and each: "\<And>i. i < 4 \<Longrightarrow> state (axes ?r ! i) = AXIS_IDLE \<and> homed (axes ?r ! i) = 0"
    by blast+
  have st: "map state (axes ?r) = [AXIS_IDLE, AXIS_IDLE, AXIS_IDLE, AXIS_IDLE]"
    using len each by (simp add: list_eq_iff_nth_eq less_Suc_eq numeral_eq_Suc)
  have hm: "map homed (axes ?r) = [0, 0, 0, 0]"
    using len each by (simp add: list_eq_iff_nth_eq less_Suc_eq numeral_eq_Suc)
  have before: "map state (axes (protocol_v2_build_response busy_example 10 STATUS_OK ERR_NONE)) =
       [AXIS_HOMING, AXIS_MOVING, AXIS_IDLE, AXIS_HOMING]"
    by (simp add: protocol_v2_build_response_def busy_example_def power_on_def)
  show ?thesis
    using w st hm before by simp
qed

text \<open>
  Claim C7. When the length handed to \<open>process_command\<close> is below 2, no handler runs:
  the only change to the firmware state is one packet written to the serial port, the
  response with \<open>cmd_id = 0\<close>, status \<open>STATUS_REJECTED\<close> and error code
  \<open>ERR_PACKET_TOO_SHORT\<close>. On the wire the packet starts with the header, the length 78
  and these three bytes.
\<close>

theorem short_payload_rejected:
  assumes "len < 2"
    and "r = protocol_v2_build_response s 0 STATUS_REJECTED ERR_PACKET_TOO_SHORT"
  shows "process_command payload len s =
           s\<lparr>SerialUSB_written := SerialUSB_written s @ [response_packet_bytes r]\<rparr>
         \<and> cmd_id r = 0 \<and> status r = STATUS_REJECTED \<and> error_code r = ERR_PACKET_TOO_SHORT
         \<and> take 7 (response_packet_bytes r) = [0xAA, 0xBB, 78, 0, 0, 0x02, 0x07]"
proof -
  have "take 7 (response_packet_bytes r) =
          [PACKET_HEADER_0, PACKET_HEADER_1, 78, 0, cmd_id r, status r, error_code r]"
    by (simp add: response_packet_bytes_def Let_def RESPONSE_SIZE_def bytes_of_ResponsePacket_def)
  then show ?thesis
    using assms
    by (simp add: process_command_def protocol_v2_send_response_def build_response_fields
        PACKET_HEADER_0_def PACKET_HEADER_1_def STATUS_REJECTED_def ERR_PACKET_TOO_SHORT_def)
qed

theorem short_payload_rejected_witness:
  "process_command [0x55] 1 power_on =
     power_on\<lparr>SerialUSB_written :=
       [response_packet_bytes
          (protocol_v2_build_response power_on 0 STATUS_REJECTED ERR_PACKET_TOO_SHORT)]\<rparr>
   \<and> take 7 (response_packet_bytes
          (protocol_v2_build_response power_on 0 STATUS_REJECTED ERR_PACKET_TOO_SHORT)) =
       [0xAA, 0xBB, 78, 0, 0, 0x02, 0x07]"
proof -
  have a: "(1 :: u16) < 2" by simp
  have "SerialUSB_written power_on = []" by (simp add: power_on_def)
  then show ?thesis
    using short_payload_rejected [OF a refl, where s = power_on and payload = "[0x55]"] by simp
qed

section \<open>Reset and the strobe channels\<close>

lemma reset_commute_atoms:
  "turn_on_illumination (handle_cmd_reset cid s) = handle_cmd_reset cid (turn_on_illumination s)"
  "turn_off_illumination (handle_cmd_reset cid s) = handle_cmd_reset cid (turn_off_illumination s)"
  "delayMicroseconds d (handle_cmd_reset cid s) = handle_cmd_reset cid (delayMicroseconds d s)"
  "after_micros (handle_cmd_reset cid s) = handle_cmd_reset cid (after_micros s)"
  "(handle_cmd_reset cid s)\<lparr>control_strobe := cs\<rparr> = handle_cmd_reset cid (s\<lparr>control_strobe := cs\<rparr>)"
  "(handle_cmd_reset cid s)\<lparr>strobe_output_level := ls\<rparr> =
     handle_cmd_reset cid (s\<lparr>strobe_output_level := ls\<rparr>)"
  by (simp_all add: handle_cmd_reset_def protocol_v2_send_response_def
      protocol_v2_build_response_def turn_on_illumination_def turn_off_illumination_def
      delayMicroseconds_def after_micros_def Let_def)

lemma reset_strobe_reads:
  "control_strobe (handle_cmd_reset cid s) = control_strobe s"
  "strobe_output_level (handle_cmd_reset cid s) = strobe_output_level s"
  "strobe_on (handle_cmd_reset cid s) = strobe_on s"
  "strobe_delay (handle_cmd_reset cid s) = strobe_delay s"
  "illumination_on_time (handle_cmd_reset cid s) = illumination_on_time s"
  "timestamp_trigger_rising_edge (handle_cmd_reset cid s) = timestamp_trigger_rising_edge s"
  "trigger_output_level (handle_cmd_reset cid s) = trigger_output_level s"
  "micros (handle_cmd_reset cid s) = micros s"
  by (simp_all add: handle_cmd_reset_def protocol_v2_send_response_def micros_def Let_def)

lemma strobe_channel_reset_commute:
  "strobe_channel c (handle_cmd_reset cid s) = handle_cmd_reset cid (strobe_channel c s)"
proof (cases "control_strobe s ! c")
  case False
  then show ?thesis
    by (simp add: strobe_channel_def reset_strobe_reads)
next
  case armed: True
  let ?t = "handle_cmd_reset cid s"
  define s0 where "s0 = after_micros s"
  define t0 where "t0 = after_micros ?t"
  have t0: "t0 = handle_cmd_reset cid s0"
    by (simp add: t0_def s0_def reset_commute_atoms)
  define P where "P \<longleftrightarrow> strobe_delay s0 ! c \<le> micros s - timestamp_trigger_rising_edge s0 ! c
                     \<and> strobe_output_level s0 ! c = LOW"
  have P': "P \<longleftrightarrow> strobe_delay t0 ! c \<le> micros ?t - timestamp_trigger_rising_edge t0 ! c
                     \<and> strobe_output_level t0 ! c = LOW"
    unfolding P_def t0 by (simp add: reset_strobe_reads)
  show ?thesis
  proof (cases "illumination_on_time s ! c \<le>s 30000")
    case True
    define s3 where "s3 = turn_off_illumination
        (delayMicroseconds (illumination_on_time (turn_on_illumination s0) ! c)
           (turn_on_illumination s0))"
    define t3 where "t3 = turn_off_illumination
        (delayMicroseconds (illumination_on_time (turn_on_illumination t0) ! c)
           (turn_on_illumination t0))"
    have t3: "t3 = handle_cmd_reset cid s3"
      unfolding t3_def s3_def t0 by (simp add: reset_commute_atoms reset_strobe_reads)
    have plain: "strobe_channel c s =
          (if P then s3\<lparr>control_strobe := (control_strobe s3)[c := False]\<rparr> else s0)"
      using armed True unfolding P_def s3_def s0_def
      by (simp only: strobe_channel_def Let_def if_True)
    have "strobe_channel c ?t =
          (if P then t3\<lparr>control_strobe := (control_strobe t3)[c := False]\<rparr> else t0)"
      using armed True unfolding P' t3_def t0_def
      by (simp only: strobe_channel_def Let_def if_True reset_strobe_reads)
    also have "\<dots> = handle_cmd_reset cid (strobe_channel c s)"
      unfolding plain t3 t0 by (simp add: reset_commute_atoms reset_strobe_reads)
    finally show ?thesis .
  next
    case long: False
    define s1 where "s1 = (if P then (turn_on_illumination s0)
                                    \<lparr>strobe_output_level := (strobe_output_level s0)[c := HIGH]\<rparr>
                           else s0)"
    define t1 where "t1 = (if P then (turn_on_illumination t0)
                                    \<lparr>strobe_output_level := (strobe_output_level t0)[c := HIGH]\<rparr>
                           else t0)"
    have t1: "t1 = handle_cmd_reset cid s1"
      unfolding t1_def s1_def t0 by (simp add: reset_commute_atoms reset_strobe_reads)
    define s2 where "s2 = after_micros s1"
    define t2 where "t2 = after_micros t1"
    have t2: "t2 = handle_cmd_reset cid s2"
      unfolding t2_def s2_def t1 by (simp add: reset_commute_atoms)
    define Q where "Q \<longleftrightarrow> strobe_delay s2 ! c + illumination_on_time s2 ! c
                         \<le> micros s1 - timestamp_trigger_rising_edge s2 ! c
                       \<and> strobe_output_level s2 ! c = HIGH"
    have Q': "Q \<longleftrightarrow> strobe_delay t2 ! c + illumination_on_time t2 ! c
                         \<le> micros t1 - timestamp_trigger_rising_edge t2 ! c
                       \<and> strobe_output_level t2 ! c = HIGH"
      unfolding Q_def t2 t1 by (simp add: reset_strobe_reads)
    have plain: "strobe_channel c s =
          (if Q then (turn_off_illumination s2)
                       \<lparr>strobe_output_level := (strobe_output_level s2)[c := LOW],
                        control_strobe := (control_strobe s2)[c := False]\<rparr>
           else s2)"
      using armed long unfolding Q_def s2_def s1_def P_def s0_def
      by (simp only: strobe_channel_def Let_def if_True if_False)
    have "strobe_channel c ?t =
          (if Q then (turn_off_illumination t2)
                       \<lparr>strobe_output_level := (strobe_output_level t2)[c := LOW],
                        control_strobe := (control_strobe t2)[c := False]\<rparr>
           else t2)"
      using armed long unfolding Q' t2_def t1_def P' t0_def
      by (simp only: strobe_channel_def Let_def if_True if_False reset_strobe_reads)
    also have "\<dots> = handle_cmd_reset cid (strobe_channel c s)"
      unfolding plain t2 by (simp add: reset_commute_atoms reset_strobe_reads)
    finally show ?thesis .
  qed
qed

lemma strobe_channels_reset_commute:
  "foldl (\<lambda>s' ch. strobe_channel ch s') (handle_cmd_reset cid s) cs =
   handle_cmd_reset cid (foldl (\<lambda>s' ch. strobe_channel ch s') s cs)"
  by (induction cs arbitrary: s) (simp_all add: strobe_channel_reset_commute)

text \<open>
  Claim C9. \<open>handle_cmd_reset\<close> does not touch the strobe channels: the six arrays of
  the strobe engine (and \<open>trigger_output_level\<close>) are after the reset what they were
  before, so an armed channel stays armed. Nor does it touch the receiver, the positions,
  the targets, the joystick values, \<open>illumination_source\<close>, \<open>illumination_is_on\<close>, the
  clock or the hardware. What it changes are the motion and homing flags,
  \<open>trigger_mode\<close>, \<open>mcu_cmd_execution_in_progress\<close>, \<open>illumination_channel_states\<close>
  and \<open>current_led_pattern\<close>; and it writes its response to the serial port. A run of
  the strobe timer after the reset therefore does what it would have done before it: the
  two commute, and a pulse in flight is completed.
\<close>

theorem reset_leaves_strobe_channels:
  "control_strobe (handle_cmd_reset cid s) = control_strobe s
   \<and> strobe_output_level (handle_cmd_reset cid s) = strobe_output_level s
   \<and> strobe_on (handle_cmd_reset cid s) = strobe_on s
   \<and> strobe_delay (handle_cmd_reset cid s) = strobe_delay s
   \<and> illumination_on_time (handle_cmd_reset cid s) = illumination_on_time s
   \<and> timestamp_trigger_rising_edge (handle_cmd_reset cid s) = timestamp_trigger_rising_edge s
   \<and> trigger_output_level (handle_cmd_reset cid s) = trigger_output_level s
   \<and> handle_cmd_reset cid s =
       s\<lparr>mcu_cmd_execution_in_progress := False,
         X_commanded_movement_in_progress := False,
         Y_commanded_movement_in_progress := False,
         Z_commanded_movement_in_progress := False,
         W_commanded_movement_in_progress := False,
         is_homing_X := False,
         is_homing_Y := False,
         is_homing_Z := False,
         is_homing_W := False,
         is_homing_XY := False,
         home_X_found := False,
         home_Y_found := False,
         home_Z_found := False,
         home_W_found := False,
         is_preparing_for_homing_X := False,
         is_preparing_for_homing_Y := False,
         is_preparing_for_homing_Z := False,
         is_preparing_for_homing_W := False,
         trigger_mode := 0,
         illumination_channel_states := 0,
         current_led_pattern := 0,
         SerialUSB_written := SerialUSB_written (handle_cmd_reset cid s)\<rparr>
   \<and> ISR_strobeTimer (handle_cmd_reset cid s) = handle_cmd_reset cid (ISR_strobeTimer s)"
proof -
  have isr: "ISR_strobeTimer (handle_cmd_reset cid s) = handle_cmd_reset cid (ISR_strobeTimer s)"
    by (simp only: ISR_strobeTimer_def strobe_channels_reset_commute)
  have changed: "handle_cmd_reset cid s =
       s\<lparr>mcu_cmd_execution_in_progress := False,
         X_commanded_movement_in_progress := False,
         Y_commanded_movement_in_progress := False,
         Z_commanded_movement_in_progress := False,
         W_commanded_movement_in_progress := False,
         is_homing_X := False,
         is_homing_Y := False,
         is_homing_Z := False,
         is_homing_W := False,
         is_homing_XY := False,
         home_X_found := False,
         home_Y_found := False,
         home_Z_found := False,
         home_W_found := False,
         is_preparing_for_homing_X := False,
         is_preparing_for_homing_Y := False,
         is_preparing_for_homing_Z := False,
         is_preparing_for_homing_W := False,
         trigger_mode := 0,
         illumination_channel_states := 0,
         current_led_pattern := 0,
         SerialUSB_written := SerialUSB_written (handle_cmd_reset cid s)\<rparr>"
    by (simp add: handle_cmd_reset_def protocol_v2_send_response_def Let_def)
  show ?thesis
    using isr changed reset_strobe_reads [of cid s] by (intro conjI)
qed

section \<open>One run of the strobe timer\<close>















section \<open>Legacy protocol: a command without a registered handler\<close>

lemma legacy_store_bytes:
  assumes "buffer_rx_ptr s = int k" and "k + length xs < 8"
    and "k + length xs \<le> length (buffer_rx s)"
  shows "process_serial_message s (xs @ rest) =
         process_serial_message
           (s\<lparr>buffer_rx := take k (buffer_rx s) @ xs @ drop (k + length xs) (buffer_rx s),
              buffer_rx_ptr := int (k + length xs)\<rparr>) rest"
  using assms
proof (induction xs arbitrary: s k)
  case Nil
  then show ?case by (cases s) simp
next
  case (Cons x xs)
  let ?s1 = "s\<lparr>buffer_rx := (buffer_rx s)[k := x], buffer_rx_ptr := int (Suc k)\<rparr>"
  have k: "k < length (buffer_rx s)" "Suc k < 8"
    using Cons.prems by simp_all
  have step: "process_serial_message s ((x # xs) @ rest) = process_serial_message ?s1 (xs @ rest)"
    using Cons.prems k by (simp add: CMD_LENGTH_def Let_def add.commute)
  have "process_serial_message ?s1 (xs @ rest) =
         process_serial_message
           (?s1\<lparr>buffer_rx := take (Suc k) (buffer_rx ?s1) @ xs @
                                drop (Suc k + length xs) (buffer_rx ?s1),
              buffer_rx_ptr := int (Suc k + length xs)\<rparr>) rest"
    using Cons.prems by (intro Cons.IH) simp_all
  moreover have "take (Suc k) ((buffer_rx s)[k := x]) = take k (buffer_rx s) @ [x]"
    using k by (simp add: take_Suc_conv_app_nth)
  ultimately show ?case
    using step by simp
qed

text \<open>
  Claim C8. The receiver of the legacy protocol is at the start of a frame; the eight
  bytes that arrive carry a correct CRC-8 in the last byte, and \<open>cmd_map\<close> has no
  entry for the command type, the frame's second byte. Then \<open>process_serial_message\<close>
  stores the frame, is ready for the next one, has set \<open>cmd_id\<close> to the frame's first
  byte and cleared \<open>checksum_error\<close>;
  the default handler it calls changes nothing, so the illumination variables, the pins,
  the DAC and the serial output are as before. The next position update that is due
  sends 24 bytes that start with the frame's first byte and the status
  \<open>COMPLETED_WITHOUT_ERRORS\<close>.
\<close>

theorem unregistered_command_acknowledged:
  assumes "length frame = 8"
    and "crc8ccitt frame 7 = frame ! 7"
    and "length (cmd_map s) = 256"
    and "cmd_map s ! unat (frame ! 1) = None"
    and "buffer_rx_ptr s = 0"
    and "length (buffer_rx s) = 512"
    and "s' = s\<lparr>buffer_rx := frame @ drop 8 (buffer_rx s),
                   buffer_rx_ptr := 0,
                   ttl_only.cmd_id := frame ! 0,
                   checksum_error := False\<rparr>"
    and "interval_send_pos_update < elapsed"
    and "reply = [frame ! 0, COMPLETED_WITHOUT_ERRORS] @ replicate 21 0"
  shows "process_serial_message s frame = Inr s'
         \<and> callback_default s' = s'
         \<and> ttl_only.illumination_source s' = ttl_only.illumination_source s
         \<and> illumination_intensity s' = illumination_intensity s
         \<and> illumination_intensity_factor s' = illumination_intensity_factor s
         \<and> ttl_only.illumination_is_on s' = ttl_only.illumination_is_on s
         \<and> hw_events s' = hw_events s
         \<and> SerialUSB_sent s' = SerialUSB_sent s
         \<and> send_position_update (s'\<lparr>us_since_last_pos_update := elapsed\<rparr>) =
             s'\<lparr>us_since_last_pos_update := 0,
                buffer_tx := reply @ [crc8ccitt reply 23],
                SerialUSB_sent := SerialUSB_sent s @ [reply @ [crc8ccitt reply 23]]\<rparr>
         \<and> (reply @ [crc8ccitt reply 23]) ! 0 = frame ! 0
         \<and> (reply @ [crc8ccitt reply 23]) ! 1 = COMPLETED_WITHOUT_ERRORS
         \<and> length (reply @ [crc8ccitt reply 23]) = 24"
proof -
  obtain first7 last8 where fr: "frame = first7 @ [last8]" and l7: "length first7 = 7"
    using assms(1) by (metis append_butlast_last_id diff_Suc_1 eval_nat_numeral(3)
        length_0_conv length_butlast nat.simps(3) numeral_eq_Suc pred_numeral_simps(2,3)
        semiring_norm(26,27))
  let ?s7 = "s\<lparr>buffer_rx := take 0 (buffer_rx s) @ first7 @ drop (0 + length first7) (buffer_rx s),
                  buffer_rx_ptr := int (0 + length first7)\<rparr>"
  have store: "process_serial_message s (first7 @ [last8]) = process_serial_message ?s7 [last8]"
    using assms(5,6) l7 by (intro legacy_store_bytes) simp_all
  have d: "drop 7 (buffer_rx s) = buffer_rx s ! 7 # drop 8 (buffer_rx s)"
    using Cons_nth_drop_Suc [of 7 "buffer_rx s"] assms(6) by simp
  have buf: "(first7 @ drop 7 (buffer_rx s))[7 := last8] = frame @ drop 8 (buffer_rx s)"
    unfolding fr d using l7 by (simp add: list_update_append)
  have tk: "take 7 (frame @ drop 8 (buffer_rx s)) = take 7 frame"
    using assms(1) by simp
  have nth: "(frame @ drop 8 (buffer_rx s)) ! 7 = frame ! 7"
    "(frame @ drop 8 (buffer_rx s)) ! 1 = frame ! 1"
    "(frame @ drop 8 (buffer_rx s)) ! 0 = frame ! 0"
    using assms(1) by (simp_all add: nth_append)
  have crc: "crc8ccitt (frame @ drop 8 (buffer_rx s)) 7 = crc8ccitt frame 7"
    by (simp only: crc8ccitt_def tk)
  have last: "process_serial_message ?s7 [last8] = Inr s'"
    using l7 assms(2,4,7) buf nth crc
    by (simp add: CMD_LENGTH_def Let_def callback_default_def)
  have run: "process_serial_message s frame = Inr s'"
    using store last fr by simp
  have upd: "send_position_update (s'\<lparr>us_since_last_pos_update := elapsed\<rparr>) =
             s'\<lparr>us_since_last_pos_update := 0,
                buffer_tx := reply @ [crc8ccitt reply 23],
                SerialUSB_sent := SerialUSB_sent s @ [reply @ [crc8ccitt reply 23]]\<rparr>"
    using assms(7,8,9) by (simp add: send_position_update_def MSG_LENGTH_def Let_def)
  have shape: "(reply @ [crc8ccitt reply 23]) ! 0 = frame ! 0"
    "(reply @ [crc8ccitt reply 23]) ! 1 = COMPLETED_WITHOUT_ERRORS"
    "length (reply @ [crc8ccitt reply 23]) = 24"
    using assms(9) by simp_all
  show ?thesis
    using run upd shape assms(7) by (simp add: callback_default_def)
qed


lemma crc8_move_x_example: "crc8ccitt [0x2A, 0, 1, 2, 3, 4, 5, 0x4E] 7 = 0x4E"
  by code_simp

lemma crc8_reply_example: "crc8ccitt (0x2A # 0 # replicate 21 0) 23 = 0xE3"
  by code_simp

lemma ttl_power_on_fields:
  "buffer_rx_ptr ttl_power_on = 0"
  "buffer_rx ttl_power_on = replicate 512 0"
  "length (cmd_map ttl_power_on) = 256"
  "cmd_map ttl_power_on ! 0 = None"
  "SerialUSB_sent ttl_power_on = []"
  by (simp_all add: ttl_power_on_def init_callbacks_def TURN_ON_ILLUMINATION_def
      TURN_OFF_ILLUMINATION_def SET_ILLUMINATION_def SET_ILLUMINATION_INTENSITY_FACTOR_def
      SET_DAC80508_REFDIV_GAIN_def ANALOG_WRITE_ONBOARD_DAC_def INITIALIZE_def RESET_def)

theorem unregistered_command_acknowledged_witness:
  "process_serial_message ttl_power_on [0x2A, 0, 1, 2, 3, 4, 5, 0x4E] =
     Inr (ttl_power_on\<lparr>buffer_rx := [0x2A, 0, 1, 2, 3, 4, 5, 0x4E] @ replicate 504 0,
                       buffer_rx_ptr := 0,
                       ttl_only.cmd_id := 0x2A,
                       checksum_error := False\<rparr>)
   \<and> send_position_update
       (ttl_power_on\<lparr>buffer_rx := [0x2A, 0, 1, 2, 3, 4, 5, 0x4E] @ replicate 504 0,
                     buffer_rx_ptr := 0,
                     ttl_only.cmd_id := 0x2A,
                     checksum_error := False,
                     us_since_last_pos_update := 10001\<rparr>) =
     ttl_power_on\<lparr>buffer_rx := [0x2A, 0, 1, 2, 3, 4, 5, 0x4E] @ replicate 504 0,
                   buffer_rx_ptr := 0,
                   ttl_only.cmd_id := 0x2A,
                   checksum_error := False,
                   us_since_last_pos_update := 0,
                   buffer_tx := [0x2A, 0] @ replicate 21 0 @ [0xE3],
                   SerialUSB_sent := [[0x2A, 0] @ replicate 21 0 @ [0xE3]]\<rparr>"
proof -
  let ?frame = "[0x2A, 0, 1, 2, 3, 4, 5, 0x4E] :: u8 list"
  have a: "length ?frame = 8" by simp
  have b: "crc8ccitt ?frame 7 = ?frame ! 7"
    by (simp add: crc8_move_x_example)
  have c: "cmd_map ttl_power_on ! unat (?frame ! 1) = None"
    by (simp add: ttl_power_on_fields)
  have d: "length (buffer_rx ttl_power_on) = 512"
    by (simp add: ttl_power_on_fields)
  have e: "interval_send_pos_update < (10001 :: u32)"
    by (simp add: interval_send_pos_update_def word_less_nat_alt)
  have dr: "drop 8 (buffer_rx ttl_power_on) = replicate 504 0"
    by (simp add: ttl_power_on_fields)
  note w = unregistered_command_acknowledged
      [OF a b ttl_power_on_fields(3) c ttl_power_on_fields(1) d refl e refl]
  show ?thesis
    using w
    by (simp add: dr ttl_power_on_fields(5) COMPLETED_WITHOUT_ERRORS_def crc8_reply_example
        del: process_serial_message.simps)
qed

end
